theory Spec2Isabelle
  imports Main "HOL-Library.AList"
begin

section \<open>Python values\<close>

text \<open>
  The agent and the executor exchange JSON-like values: every step result, every
  parameter mapping and every answer of a Google service is a \<open>Dict[str, Any]\<close>.
  A dictionary is an association list with distinct keys in insertion order, read
  with \<open>map_of\<close> and written with \<open>AList.update\<close> (which keeps the position
  of a key that is already there and appends a new one, as a Python dict does).
\<close>

datatype pyval =
    PNone
  | PBool bool
  | PInt int
  | PStr string
  | PList "pyval list"
  | PDict "(string \<times> pyval) list"

type_synonym pydict = "(string \<times> pyval) list"

text \<open>Python's truth value of an object, as \<open>if x:\<close> and \<open>not x\<close> test it.\<close>

fun truthy :: "pyval \<Rightarrow> bool" where
  "truthy PNone = False"
| "truthy (PBool b) = b"
| "truthy (PInt i) = (i \<noteq> 0)"
| "truthy (PStr s) = (s \<noteq> [])"
| "truthy (PList xs) = (xs \<noteq> [])"
| "truthy (PDict d) = (d \<noteq> [])"

text \<open>\<open>d.get(k)\<close> and \<open>d.get(k, default)\<close> on a dictionary.\<close>

definition dict_get :: "pydict \<Rightarrow> string \<Rightarrow> pyval" where
  "dict_get d k = (case map_of d k of None \<Rightarrow> PNone | Some v \<Rightarrow> v)"

definition dict_get_default :: "pydict \<Rightarrow> string \<Rightarrow> pyval \<Rightarrow> pyval" where
  "dict_get_default d k dflt = (case map_of d k of None \<Rightarrow> dflt | Some v \<Rightarrow> v)"

section \<open>Exceptions\<close>

text \<open>
  A raised exception is a value: the left summand of every fallible result. The
  constructors are the Python exception classes that the modelled code can raise,
  each with the text that \<open>str(e)\<close> gives (for a \<open>KeyError\<close>, the missing key
  in quotes). \<open>ServiceError\<close> stands for whatever an external collaborator (a
  Google API client, the language model client, the injected step executor)
  raises.
\<close>

datatype pyexn =
    KeyError string
  | AttributeError string
  | TypeError string
  | ValueError string
  | IndexError string
  | ServiceError string

fun str_exn :: "pyexn \<Rightarrow> string" where
  "str_exn (KeyError m) = m"
| "str_exn (AttributeError m) = m"
| "str_exn (TypeError m) = m"
| "str_exn (ValueError m) = m"
| "str_exn (IndexError m) = m"
| "str_exn (ServiceError m) = m"

text \<open>A Python string in single quotes, as exception messages show names and keys.\<close>

definition squote :: "string \<Rightarrow> string" where
  "squote s = CHR 0x27 # s @ [CHR 0x27]"

text \<open>\<open>KeyError(key)\<close> for a string key.\<close>

definition key_error :: "string \<Rightarrow> pyexn" where
  "key_error k = KeyError (squote k)"

text \<open>Sequencing of fallible steps: the first exception ends the computation.\<close>

definition and_then :: "pyexn + 'a \<Rightarrow> ('a \<Rightarrow> pyexn + 'b) \<Rightarrow> pyexn + 'b" where
  "and_then m f = (case m of Inl e \<Rightarrow> Inl e | Inr x \<Rightarrow> f x)"

section \<open>Response Synthesizer\<close>

text \<open>
  \<open>MeetingBookingMCPAgent._generate_response\<close> (meeting_booking_agent.py). The
  results mapping has one step result (a dictionary) per key \<open>"{api}_{action}"\<close>.
  The returned dictionary always has the two keys \<open>message\<close> and \<open>status\<close>.
\<close>

type_synonym results = "(string \<times> pydict) list"

record response =
  message :: string
  status :: string

definition generate_response :: "string \<Rightarrow> results \<Rightarrow> response" where
  "generate_response prompt results =
     (case map_of results ''contacts_find_contact'' of
        None \<Rightarrow> \<lparr>message = ''Failed to find contact.'', status = ''error''\<rparr>
      | Some contact \<Rightarrow>
          if truthy (dict_get contact ''success'') then
            (case map_of results ''calendar_get_free_slots'' of
               None \<Rightarrow> \<lparr>message = ''Failed to find available slots. Please specify a date.'',
                         status = ''error''\<rparr>
             | Some found \<Rightarrow>
                 if truthy (dict_get found ''success'') then
                   (let slots = dict_get_default found ''slots'' (PList [])
                    in if truthy slots
                       then \<lparr>message = ''Meeting slots found and processed.'',
                             status = ''success''\<rparr>
                       else \<lparr>message = ''There are no available time slots. Would you like to try a different day?'',
                             status = ''success''\<rparr>)
                 else \<lparr>message = ''Failed to find available slots. Please specify a date.'',
                        status = ''error''\<rparr>)
          else \<lparr>message = ''Failed to find contact.'', status = ''error''\<rparr>)"

text \<open>
  What the claims call a successful result under a key: the key is in the mapping
  and the stored result's \<open>success\<close> entry is true.
\<close>

definition successful :: "results \<Rightarrow> string \<Rightarrow> bool" where
  "successful results key = (\<exists>r. map_of results key = Some r \<and> truthy (dict_get r ''success''))"

text \<open>The \<open>slots\<close> entry of the stored slot lookup, an empty list when there is none.\<close>

definition slots_of :: "results \<Rightarrow> pyval" where
  "slots_of results =
     (case map_of results ''calendar_get_free_slots'' of
        None \<Rightarrow> PList []
      | Some r \<Rightarrow> dict_get_default r ''slots'' (PList []))"

section \<open>Plan steps and the Plan Runner\<close>

text \<open>
  A plan step is the dictionary \<open>{"api": ..., "action": ..., "params": {...}}\<close>.
\<close>

record plan_step =
  api :: string
  action :: string
  params :: pydict

text \<open>
  The agent's own mutable state. \<open>pending_action\<close> is \<open>None\<close> after
  \<open>__init__\<close>; the attribute \<open>pending_action_contact_id\<close> does not exist
  until the Plan Runner assigns it.
\<close>

record agent =
  pending_action :: "string option"
  pending_action_contact_id :: "pyval option"

text \<open>
  The injected \<open>api_executor\<close> is an external object with its own state. Its
  state is represented by the sequence of \<open>execute\<close> calls it has received so
  far: the answer to a call is a function of the earlier calls and of the call
  itself, and is either a result dictionary or a raised exception. Every
  deterministic stateful executor started in a fixed state is of this form.
\<close>

type_synonym executor = "plan_step list \<Rightarrow> plan_step \<Rightarrow> pyexn + pydict"

text \<open>
  The loop of \<open>MeetingBookingMCPAgent._execute_plan\<close> (meeting_booking_agent.py),
  started with the results collected so far, the agent state and the calls the
  executor has received. It returns the results mapping (or the exception that
  escaped), the agent state and the executor's call sequence.
\<close>

fun run_steps ::
  "executor \<Rightarrow> plan_step list \<Rightarrow> results \<Rightarrow> agent \<Rightarrow> plan_step list
     \<Rightarrow> (pyexn + results) \<times> agent \<times> plan_step list" where
  "run_steps ex [] results ag calls = (Inr results, ag, calls)"
| "run_steps ex (step # rest) results ag calls =
     (case ex calls step of
        Inl e \<Rightarrow> (Inl e, ag, calls @ [step])
      | Inr result \<Rightarrow>
          (let results' = AList.update (api step @ ''_'' @ action step) result results
           in if action step = ''get_free_slots'' \<and> \<not> truthy (dict_get result ''success'')
              then (let ag' = ag\<lparr>pending_action := Some ''get_free_slots''\<rparr>
                    in case map_of (params step) ''other_user_id'' of
                         None \<Rightarrow> (Inl (key_error ''other_user_id''), ag', calls @ [step])
                       | Some contact_id \<Rightarrow>
                           (Inr results',
                            ag'\<lparr>pending_action_contact_id := Some contact_id\<rparr>,
                            calls @ [step]))
              else run_steps ex rest results' ag (calls @ [step])))"

definition execute_plan ::
  "executor \<Rightarrow> plan_step list \<Rightarrow> string \<Rightarrow> agent \<Rightarrow> plan_step list
     \<Rightarrow> (pyexn + results) \<times> agent \<times> plan_step list" where
  "execute_plan ex plan prompt ag calls = run_steps ex plan [] ag calls"

text \<open>
  A step, run when the executor has received \<open>calls\<close>, suspends the run: its
  action is \<open>get_free_slots\<close> and the executor returns a result whose
  \<open>success\<close> is not true.
\<close>

definition suspending :: "executor \<Rightarrow> plan_step list \<Rightarrow> plan_step \<Rightarrow> bool" where
  "suspending ex calls step =
     (case ex calls step of
        Inl e \<Rightarrow> False
      | Inr result \<Rightarrow> action step = ''get_free_slots'' \<and> \<not> truthy (dict_get result ''success''))"

text \<open>
  The executor answers every step of \<open>steps\<close> in turn (it raises nothing), and none
  of them suspends the run.
\<close>

fun passes :: "executor \<Rightarrow> plan_step list \<Rightarrow> plan_step list \<Rightarrow> bool" where
  "passes ex calls [] = True"
| "passes ex calls (step # rest) =
     ((\<exists>result. ex calls step = Inr result) \<and> \<not> suspending ex calls step
      \<and> passes ex (calls @ [step]) rest)"

text \<open>The results mapping after the steps of \<open>steps\<close> have all been answered.\<close>

fun collect :: "executor \<Rightarrow> plan_step list \<Rightarrow> results \<Rightarrow> plan_step list \<Rightarrow> results" where
  "collect ex [] results calls = results"
| "collect ex (step # rest) results calls =
     (case ex calls step of
        Inl e \<Rightarrow> results
      | Inr result \<Rightarrow>
          collect ex rest (AList.update (api step @ ''_'' @ action step) result results)
            (calls @ [step]))"

section \<open>Plan Builder and the entry point\<close>

text \<open>
  meeting_booking_agent.py imports the class with \<open>from datetime import datetime\<close>,
  so in that module the name \<open>datetime\<close> is the class \<open>datetime.datetime\<close> and
  \<open>datetime.date\<close> is the method descriptor of its instance method \<open>date\<close>.
  The expression \<open>datetime.date.today().isoformat()\<close> of the Plan Builder
  therefore raises at the attribute lookup \<open>.today\<close>, on every evaluation.
\<close>

definition today_isoformat :: "pyexn + pyval" where
  "today_isoformat =
     Inl (AttributeError (squote ''method_descriptor'' @ '' object has no attribute '' @ squote ''today''))"

text \<open>
  \<open>MeetingBookingMCPAgent._create_execution_plan\<close> (meeting_booking_agent.py). The
  intent is a dictionary; \<open>user_id\<close> is a string. The dictionary of the last step
  is built, and its \<open>date\<close> entry evaluated, before the step is appended.
\<close>

definition create_execution_plan :: "pydict \<Rightarrow> string \<Rightarrow> pyexn + plan_step list" where
  "create_execution_plan intent user_id =
     (let plan = [];
          plan = (case map_of intent ''contact_name'' of
                    None \<Rightarrow> plan
                  | Some contact_name \<Rightarrow>
                      plan @ [\<lparr>api = ''contacts'', action = ''find_contact'',
                                params = [(''name'', contact_name)]\<rparr>]);
          plan = (case map_of intent ''ask_preferences'' of
                    None \<Rightarrow> plan
                  | Some ask_preferences \<Rightarrow>
                      if truthy ask_preferences
                      then plan @ [\<lparr>api = ''preferences'', action = ''get_meeting_preferences'',
                                     params = [(''user_id'', PStr user_id),
                                               (''ask_user'', PBool True)]\<rparr>]
                      else plan)
      in case today_isoformat of
           Inl e \<Rightarrow> Inl e
         | Inr date \<Rightarrow>
             Inr (plan @ [\<lparr>api = ''calendar'', action = ''get_free_slots'',
                            params = [(''user_id'', PStr user_id),
                                      (''other_user_id'', PStr ''PLACEHOLDER''),
                                      (''date'', date)]\<rparr>]))"

text \<open>
  The method of the same name of the second \<open>MeetingBookingMCPAgent\<close> class, in
  google_calendar_integration_openai.py: the same three rules, with the literal
  \<open>"PLACEHOLDER"\<close> as the date of the last step.
\<close>

definition integration_create_execution_plan :: "pydict \<Rightarrow> string \<Rightarrow> plan_step list" where
  "integration_create_execution_plan intent user_id =
     (let plan = [];
          plan = (case map_of intent ''contact_name'' of
                    None \<Rightarrow> plan
                  | Some contact_name \<Rightarrow>
                      plan @ [\<lparr>api = ''contacts'', action = ''find_contact'',
                                params = [(''name'', contact_name)]\<rparr>]);
          plan = (case map_of intent ''ask_preferences'' of
                    None \<Rightarrow> plan
                  | Some ask_preferences \<Rightarrow>
                      if truthy ask_preferences
                      then plan @ [\<lparr>api = ''preferences'', action = ''get_meeting_preferences'',
                                     params = [(''user_id'', PStr user_id),
                                               (''ask_user'', PBool True)]\<rparr>]
                      else plan)
      in plan @ [\<lparr>api = ''calendar'', action = ''get_free_slots'',
                   params = [(''user_id'', PStr user_id),
                             (''other_user_id'', PStr ''PLACEHOLDER''),
                             (''date'', PStr ''PLACEHOLDER'')]\<rparr>])"

text \<open>
  The language model client is an external collaborator: given the prompt it
  returns the text of the completion or raises.
  \<open>MeetingBookingMCPAgent._parse_intent_with_llm\<close> calls it, ignores the text and
  returns a fixed intent.
\<close>

type_synonym llm = "string \<Rightarrow> pyexn + string"

definition parse_intent_with_llm :: "llm \<Rightarrow> string \<Rightarrow> pyexn + pydict" where
  "parse_intent_with_llm complete prompt =
     (case complete prompt of
        Inl e \<Rightarrow> Inl e
      | Inr message_content \<Rightarrow>
          Inr [(''action'', PStr ''book_meeting''),
               (''contact_name'', PStr ''Chinmay Sir''),
               (''ask_preferences'', PBool False)])"

text \<open>
  \<open>MeetingBookingMCPAgent.process_user_prompt\<close> (meeting_booking_agent.py). No
  call in it is inside a \<open>try\<close>. The Plan Runner is declared as
  \<open>_execute_plan(self, plan, prompt)\<close> and called here as
  \<open>self._execute_plan(plan)\<close>: the call raises TypeError before the body of the
  Plan Runner is entered, so neither the executor nor the agent state is touched.
\<close>

definition process_user_prompt :: "llm \<Rightarrow> string \<Rightarrow> string \<Rightarrow> pyexn + response" where
  "process_user_prompt complete prompt user_id =
     (case parse_intent_with_llm complete prompt of
        Inl e \<Rightarrow> Inl e
      | Inr intent \<Rightarrow>
          (case map_of intent ''action'' of
             None \<Rightarrow> Inl (key_error ''action'')
           | Some act \<Rightarrow>
               if act = PStr ''book_meeting'' then
                 (case create_execution_plan intent user_id of
                    Inl e \<Rightarrow> Inl e
                  | Inr plan \<Rightarrow>
                      Inl (TypeError (''MeetingBookingMCPAgent._execute_plan() missing 1 required positional argument: ''
                                      @ squote ''prompt'')))
               else Inr \<lparr>message = ''I'' @ [CHR 0x27] @ ''m not sure what you want to do. Can you clarify?'',
                          status = ''error''\<rparr>))"

text \<open>
  The body of \<open>process_user_prompt\<close> over the three methods that it calls on
  \<open>self\<close>: \<open>_parse_intent_with_llm(prompt)\<close>, \<open>_create_execution_plan(intent,
  user_id)\<close> and \<open>_execute_plan(plan)\<close>, each of which returns or raises. The
  fourth, \<open>_generate_response\<close>, is the Response Synthesizer.
\<close>

definition clarification :: response where
  "clarification =
     \<lparr>message = ''I'' @ [CHR 0x27] @ ''m not sure what you want to do. Can you clarify?'',
      status = ''error''\<rparr>"

definition process_user_prompt_body ::
  "(string \<Rightarrow> pyexn + pydict) \<Rightarrow> (pydict \<Rightarrow> string \<Rightarrow> pyexn + plan_step list)
     \<Rightarrow> (plan_step list \<Rightarrow> pyexn + results) \<Rightarrow> string \<Rightarrow> string \<Rightarrow> pyexn + response" where
  "process_user_prompt_body parse_intent create_plan run_plan prompt user_id =
     (case parse_intent prompt of
        Inl e \<Rightarrow> Inl e
      | Inr intent \<Rightarrow>
          (case map_of intent ''action'' of
             None \<Rightarrow> Inl (key_error ''action'')
           | Some act \<Rightarrow>
               if act = PStr ''book_meeting'' then
                 (case create_plan intent user_id of
                    Inl e \<Rightarrow> Inl e
                  | Inr plan \<Rightarrow>
                      (case run_plan plan of
                         Inl e \<Rightarrow> Inl e
                       | Inr results \<Rightarrow> Inr (generate_response prompt results)))
               else Inr clarification))"

text \<open>
  The call \<open>self._execute_plan(plan)\<close> as line 25 of meeting_booking_agent.py
  writes it, for the method \<open>_execute_plan(self, plan, prompt)\<close> of that file.
\<close>

definition execute_plan_as_called :: "plan_step list \<Rightarrow> pyexn + results" where
  "execute_plan_as_called plan =
     Inl (TypeError (''MeetingBookingMCPAgent._execute_plan() missing 1 required positional argument: ''
                     @ squote ''prompt''))"

section \<open>Interval Scheduler\<close>

text \<open>
  A point in time is a number of microseconds (the resolution of Python's
  \<open>datetime\<close>); \<open>timedelta(minutes=n)\<close> is \<open>minutes n\<close>. A \<open>datetime\<close> object is
  naive (no offset) or aware (parsed from text that carries an offset, such as the
  \<open>+00:00\<close> that \<open>_get_free_slots\<close> substitutes for a trailing \<open>Z\<close>). The work
  window and the cursor of the scheduler come from \<open>datetime.combine\<close> and are
  naive; the limits of a busy period come from \<open>datetime.fromisoformat\<close> and can be
  either.
\<close>

definition minutes :: "int \<Rightarrow> int" where
  "minutes n = n * 60000000"

datatype pydatetime = Naive int | Aware int

fun instant :: "pydatetime \<Rightarrow> int" where
  "instant (Naive t) = t"
| "instant (Aware t) = t"

fun is_naive :: "pydatetime \<Rightarrow> bool" where
  "is_naive (Naive t) = True"
| "is_naive (Aware t) = False"

text \<open>
  \<open>a <= b\<close> and \<open>a >= b\<close> for a naive \<open>a\<close>: Python refuses to order a naive and
  an aware \<open>datetime\<close>.
\<close>

definition cannot_compare :: pyexn where
  "cannot_compare = TypeError (''can'' @ [CHR 0x27] @ ''t compare offset-naive and offset-aware datetimes'')"

fun naive_le :: "int \<Rightarrow> pydatetime \<Rightarrow> pyexn + bool" where
  "naive_le a (Naive b) = Inr (a \<le> b)"
| "naive_le a (Aware b) = Inl cannot_compare"

fun naive_ge :: "int \<Rightarrow> pydatetime \<Rightarrow> pyexn + bool" where
  "naive_ge a (Naive b) = Inr (a \<ge> b)"
| "naive_ge a (Aware b) = Inl cannot_compare"

type_synonym busy_period = "pydatetime \<times> pydatetime"

text \<open>
  The inner \<open>for\<close> loop of \<open>GoogleCalendarAPIExecutor._get_free_slots\<close>: the value
  of \<open>is_free\<close> after the loop over \<open>busy_periods\<close>. The test is
  \<open>not (slot_end <= busy_start or current_time >= busy_end)\<close>; \<open>or\<close> evaluates its
  second operand only when the first is false, and the loop stops at the first
  overlap.
\<close>

fun is_free :: "int \<Rightarrow> int \<Rightarrow> busy_period list \<Rightarrow> pyexn + bool" where
  "is_free current_time slot_end [] = Inr True"
| "is_free current_time slot_end ((busy_start, busy_end) # rest) =
     (case naive_le slot_end busy_start of
        Inl e \<Rightarrow> Inl e
      | Inr before \<Rightarrow>
          if before then is_free current_time slot_end rest
          else (case naive_ge current_time busy_end of
                  Inl e \<Rightarrow> Inl e
                | Inr after \<Rightarrow>
                    if after then is_free current_time slot_end rest else Inr False))"

text \<open>
  The \<open>while\<close> loop of \<open>_get_free_slots\<close>, with the list of free slots found so
  far. A slot is kept as the pair of its start and end; \<open>_get_free_slots\<close> stores
  the two as ISO strings (see \<open>slot_dict\<close> below). The cursor advances by thirty
  minutes whatever the duration is.
\<close>

function free_slots_loop ::
  "int \<Rightarrow> int \<Rightarrow> busy_period list \<Rightarrow> int \<Rightarrow> (int \<times> int) list \<Rightarrow> pyexn + (int \<times> int) list" where
  "free_slots_loop duration time_max busy_periods current_time free_slots =
     (if current_time + duration \<le> time_max then
        (let slot_end = current_time + duration
         in case is_free current_time slot_end busy_periods of
              Inl e \<Rightarrow> Inl e
            | Inr free \<Rightarrow>
                free_slots_loop duration time_max busy_periods (current_time + minutes 30)
                  (if free then free_slots @ [(current_time, slot_end)] else free_slots))
      else Inr free_slots)"
  by pat_completeness auto
termination
  by (relation "measure (\<lambda>(duration, time_max, busy_periods, current_time, free_slots).
        nat (time_max - duration - current_time + 1))")
     (auto simp: minutes_def)

text \<open>
  The scheduler as \<open>_get_free_slots\<close> starts it: no slot yet, the cursor at the
  start of the work window.
\<close>

definition find_free_slots ::
  "int \<Rightarrow> int \<Rightarrow> int \<Rightarrow> busy_period list \<Rightarrow> pyexn + (int \<times> int) list" where
  "find_free_slots time_min time_max duration busy_periods =
     free_slots_loop duration time_max busy_periods time_min []"

text \<open>
  \<open>datetime.combine(base_date, datetime.time(hour, 0))\<close>, a date being the number
  of its day.
\<close>

definition combine :: "int \<Rightarrow> int \<Rightarrow> int" where
  "combine base_date hour = minutes (1440 * base_date) + minutes (60 * hour)"

text \<open>
  What is required of an emitted slot: it starts no earlier than the work window,
  lasts \<open>duration\<close>, ends no later than the window, and for every busy period it
  ends by the period's start or starts at or after the period's end.
\<close>

definition slot_ok :: "int \<Rightarrow> int \<Rightarrow> int \<Rightarrow> busy_period list \<Rightarrow> int \<times> int \<Rightarrow> bool" where
  "slot_ok time_min time_max duration busy_periods slot =
     (time_min \<le> fst slot \<and> snd slot = fst slot + duration \<and> snd slot \<le> time_max
      \<and> (\<forall>(busy_start, busy_end) \<in> set busy_periods.
            snd slot \<le> instant busy_start \<or> instant busy_end \<le> fst slot))"

section \<open>Operations on Python values\<close>

text \<open>
  The values that the executor handles are typed \<open>Any\<close>: each operation on them
  either succeeds or raises, according to the class of the object.
\<close>

fun type_name :: "pyval \<Rightarrow> string" where
  "type_name PNone = ''NoneType''"
| "type_name (PBool b) = ''bool''"
| "type_name (PInt i) = ''int''"
| "type_name (PStr s) = ''str''"
| "type_name (PList xs) = ''list''"
| "type_name (PDict d) = ''dict''"

definition dquote :: "string \<Rightarrow> string" where
  "dquote s = CHR 0x22 # s @ [CHR 0x22]"

definition no_attribute :: "pyval \<Rightarrow> string \<Rightarrow> pyexn" where
  "no_attribute obj attr =
     AttributeError (squote (type_name obj) @ '' object has no attribute '' @ squote attr)"

text \<open>\<open>obj.get(key, default)\<close>: only a dictionary has the method.\<close>

fun py_get :: "pyval \<Rightarrow> string \<Rightarrow> pyval \<Rightarrow> pyexn + pyval" where
  "py_get (PDict d) key dflt = Inr (dict_get_default d key dflt)"
| "py_get obj key dflt = Inl (no_attribute obj ''get'')"

text \<open>
  \<open>obj.get(key, default)\<close> when the key is itself a value: a list or a dictionary
  cannot be hashed, and a key that is not a string is in no dictionary of the model.
\<close>

fun py_get_value :: "pyval \<Rightarrow> pyval \<Rightarrow> pyval \<Rightarrow> pyexn + pyval" where
  "py_get_value (PDict d) (PStr key) dflt = Inr (dict_get_default d key dflt)"
| "py_get_value (PDict d) (PList xs) dflt = Inl (TypeError (''unhashable type: '' @ squote ''list''))"
| "py_get_value (PDict d) (PDict k) dflt = Inl (TypeError (''unhashable type: '' @ squote ''dict''))"
| "py_get_value (PDict d) key dflt = Inr dflt"
| "py_get_value obj key dflt = Inl (no_attribute obj ''get'')"

text \<open>\<open>obj[key]\<close> for a string key.\<close>

fun py_item :: "pyval \<Rightarrow> string \<Rightarrow> pyexn + pyval" where
  "py_item (PDict d) key = (case map_of d key of None \<Rightarrow> Inl (key_error key) | Some v \<Rightarrow> Inr v)"
| "py_item (PList xs) key = Inl (TypeError ''list indices must be integers or slices, not str'')"
| "py_item (PStr s) key = Inl (TypeError (''string indices must be integers, not '' @ squote ''str''))"
| "py_item obj key = Inl (TypeError (squote (type_name obj) @ '' object is not subscriptable''))"

text \<open>\<open>obj[0]\<close>. No dictionary of the model has the key \<open>0\<close>.\<close>

fun py_first :: "pyval \<Rightarrow> pyexn + pyval" where
  "py_first (PList xs) = (case xs of [] \<Rightarrow> Inl (IndexError ''list index out of range'') | x # _ \<Rightarrow> Inr x)"
| "py_first (PStr s) =
     (case s of [] \<Rightarrow> Inl (IndexError ''string index out of range'') | c # _ \<Rightarrow> Inr (PStr [c]))"
| "py_first (PDict d) = Inl (KeyError ''0'')"
| "py_first obj = Inl (TypeError (squote (type_name obj) @ '' object is not subscriptable''))"

text \<open>The items that \<open>for x in obj\<close> visits.\<close>

fun py_iter :: "pyval \<Rightarrow> pyexn + pyval list" where
  "py_iter (PList xs) = Inr xs"
| "py_iter (PStr s) = Inr (map (\<lambda>c. PStr [c]) s)"
| "py_iter (PDict d) = Inr (map (\<lambda>kv. PStr (fst kv)) d)"
| "py_iter obj = Inl (TypeError (squote (type_name obj) @ '' object is not iterable''))"

text \<open>\<open>len(obj)\<close>.\<close>

fun py_len :: "pyval \<Rightarrow> pyexn + int" where
  "py_len (PList xs) = Inr (int (length xs))"
| "py_len (PStr s) = Inr (int (length s))"
| "py_len (PDict d) = Inr (int (length d))"
| "py_len obj = Inl (TypeError (''object of type '' @ squote (type_name obj) @ '' has no len()''))"

text \<open>\<open>a + b\<close>: numbers add, lists and strings concatenate.\<close>

fun as_number :: "pyval \<Rightarrow> int option" where
  "as_number (PInt i) = Some i"
| "as_number (PBool b) = Some (if b then 1 else 0)"
| "as_number obj = None"

definition unsupported_add :: "pyval \<Rightarrow> pyval \<Rightarrow> pyexn" where
  "unsupported_add a b =
     TypeError (''unsupported operand type(s) for +: '' @ squote (type_name a) @ '' and ''
                @ squote (type_name b))"

fun py_add :: "pyval \<Rightarrow> pyval \<Rightarrow> pyexn + pyval" where
  "py_add (PList xs) (PList ys) = Inr (PList (xs @ ys))"
| "py_add (PList xs) b =
     Inl (TypeError (''can only concatenate list (not '' @ dquote (type_name b) @ '') to list''))"
| "py_add (PStr s) (PStr t) = Inr (PStr (s @ t))"
| "py_add (PStr s) b =
     Inl (TypeError (''can only concatenate str (not '' @ dquote (type_name b) @ '') to str''))"
| "py_add a b =
     (case (as_number a, as_number b) of
        (Some i, Some j) \<Rightarrow> Inr (PInt (i + j))
      | _ \<Rightarrow> Inl (unsupported_add a b))"

text \<open>\<open>'@' in obj\<close>.\<close>

fun contains_at :: "pyval \<Rightarrow> pyexn + bool" where
  "contains_at (PStr s) = Inr (CHR ''@'' \<in> set s)"
| "contains_at (PList xs) = Inr (PStr ''@'' \<in> set xs)"
| "contains_at (PDict d) = Inr (''@'' \<in> fst ` set d)"
| "contains_at obj = Inl (TypeError (''argument of type '' @ squote (type_name obj) @ '' is not iterable''))"

text \<open>\<open>query in text\<close> for two strings: \<open>query\<close> occurs in \<open>text\<close>.\<close>

fun occurs_in :: "string \<Rightarrow> string \<Rightarrow> bool" where
  "occurs_in query [] = (query = [])"
| "occurs_in query (c # cs) = (take (length query) (c # cs) = query \<or> occurs_in query cs)"

text \<open>\<open>s.split('/')[-1]\<close>: what follows the last slash.\<close>

definition last_segment :: "string \<Rightarrow> string" where
  "last_segment s = rev (takeWhile (\<lambda>c. c \<noteq> CHR ''/'') (rev s))"

text \<open>\<open>s.replace('Z', '+00:00')\<close>.\<close>

definition replace_Z :: "string \<Rightarrow> string" where
  "replace_Z s = concat (map (\<lambda>c. if c = CHR ''Z'' then ''+00:00'' else [c]) s)"

section \<open>Step Executor\<close>

text \<open>
  \<open>GoogleCalendarAPIExecutor\<close> (google_calendar_integration_openai.py) reaches
  the outside world through the two Google service objects and through the
  standard library. Each request is a function of the arguments that the code
  puts into it, and returns the decoded answer or raises:
  \<^item> \<open>connections_list\<close>: \<open>people().connections().list(resourceName='people/me', ...).execute()\<close>;
  \<^item> \<open>people_get contact_id\<close>: \<open>people().get(resourceName=f'people/{contact_id}', ...).execute()\<close>;
  \<^item> \<open>freebusy_query time_min time_max contact_email\<close>: \<open>freebusy().query(body=body).execute()\<close>;
  \<^item> \<open>events_list start_dt end_dt\<close>: \<open>events().list(calendarId='primary', ...).execute()\<close>;
  \<^item> \<open>events_insert event\<close>: \<open>events().insert(calendarId='primary', body=event, ...).execute()\<close>;
  \<^item> \<open>today\<close>: \<open>datetime.date.today()\<close>, a date being the number of its day;
  \<^item> \<open>date_fromisoformat\<close>, \<open>datetime_fromisoformat\<close>: the two parsers, applied to a string;
  \<^item> \<open>date_isoformat\<close>, \<open>datetime_isoformat\<close>: \<open>isoformat()\<close> of a date and of a naive \<open>datetime\<close>;
  \<^item> \<open>lower\<close>: \<open>str.lower\<close>.
\<close>

record services =
  connections_list :: "pyexn + pyval"
  people_get :: "pyval \<Rightarrow> pyexn + pyval"
  freebusy_query :: "int \<Rightarrow> int \<Rightarrow> pyval \<Rightarrow> pyexn + pyval"
  events_list :: "pydatetime \<Rightarrow> pydatetime \<Rightarrow> pyexn + pyval"
  events_insert :: "pydict \<Rightarrow> pyexn + pyval"
  today :: int
  date_fromisoformat :: "string \<Rightarrow> pyexn + int"
  datetime_fromisoformat :: "string \<Rightarrow> pyexn + pydatetime"
  date_isoformat :: "int \<Rightarrow> string"
  datetime_isoformat :: "int \<Rightarrow> string"
  lower :: "string \<Rightarrow> string"

text \<open>
  \<open>try: body except Exception as e: return {"success": False, "error": f"<prefix>{str(e)}"}\<close>
  around a whole method body.
\<close>

definition failure :: "string \<Rightarrow> pydict" where
  "failure msg = [(''success'', PBool False), (''error'', PStr msg)]"

definition catching :: "string \<Rightarrow> pyexn + pydict \<Rightarrow> pydict" where
  "catching prefix body = (case body of Inl e \<Rightarrow> failure (prefix @ str_exn e) | Inr result \<Rightarrow> result)"

text \<open>\<open>obj.lower()\<close>: only a string has the method.\<close>

definition py_lower :: "services \<Rightarrow> pyval \<Rightarrow> pyexn + string" where
  "py_lower sv obj = (case obj of PStr s \<Rightarrow> Inr (lower sv s) | _ \<Rightarrow> Inl (no_attribute obj ''lower''))"

subsection \<open>\<open>_find_contact\<close>\<close>

text \<open>
  The inner loop over the names of one person: the contact built for the first
  name that contains the query (after which the loop breaks), or nothing.
\<close>

fun first_match :: "services \<Rightarrow> string \<Rightarrow> pyval \<Rightarrow> pyval list \<Rightarrow> pyexn + pydict option" where
  "first_match sv query person [] = Inr None"
| "first_match sv query person (name_obj # rest) =
     and_then (py_get name_obj ''displayName'' (PStr '''')) (\<lambda>shown.
     and_then (py_lower sv shown) (\<lambda>display_name.
       if occurs_in query display_name then
         and_then (py_item person ''resourceName'') (\<lambda>resource.
         and_then (case resource of PStr r \<Rightarrow> Inr (PStr (last_segment r))
                   | _ \<Rightarrow> Inl (no_attribute resource ''split'')) (\<lambda>contact_id.
         and_then (py_get name_obj ''displayName'' (PStr '''')) (\<lambda>name.
         and_then (py_get person ''emailAddresses'' (PList [PDict []])) (\<lambda>addresses.
         and_then (py_first addresses) (\<lambda>address.
         and_then (py_get address ''value'' (PStr '''')) (\<lambda>email.
           Inr (Some [(''contact_id'', contact_id), (''name'', name), (''email'', email)])))))))
       else first_match sv query person rest))"

text \<open>The outer loop over the connections, with the matching contacts found so far.\<close>

fun matching_contacts :: "services \<Rightarrow> string \<Rightarrow> pyval list \<Rightarrow> pydict list \<Rightarrow> pyexn + pydict list" where
  "matching_contacts sv query [] found = Inr found"
| "matching_contacts sv query (person # rest) found =
     and_then (py_get person ''names'' (PList [])) (\<lambda>names.
     and_then (py_iter names) (\<lambda>name_objs.
     and_then (first_match sv query person name_objs) (\<lambda>matched.
       matching_contacts sv query rest
         (case matched of None \<Rightarrow> found | Some contact \<Rightarrow> found @ [contact]))))"

definition find_contact_body :: "services \<Rightarrow> pyval \<Rightarrow> pyexn + pydict" where
  "find_contact_body sv name =
     (case name of
        PStr name_text \<Rightarrow>
          (let query = lower sv name_text in
           and_then (connections_list sv) (\<lambda>results.
           and_then (py_get results ''connections'' (PList [])) (\<lambda>connections.
           and_then (py_iter connections) (\<lambda>persons.
           and_then (matching_contacts sv query persons []) (\<lambda>found.
             case found of
               contact # _ \<Rightarrow>
                 and_then (py_item (PDict contact) ''contact_id'') (\<lambda>contact_id.
                 and_then (py_item (PDict contact) ''name'') (\<lambda>contact_name.
                 and_then (py_item (PDict contact) ''email'') (\<lambda>email.
                   Inr [(''success'', PBool True), (''contact_id'', contact_id),
                        (''name'', contact_name), (''email'', email)])))
             | [] \<Rightarrow>
                 Inr (failure (''No contact found with name '' @ squote name_text)))))))
      | _ \<Rightarrow> Inl (no_attribute name ''lower''))"

definition find_contact :: "services \<Rightarrow> pyval \<Rightarrow> pydict" where
  "find_contact sv name = catching ''Error finding contact: '' (find_contact_body sv name)"

subsection \<open>\<open>_get_contact_details\<close>\<close>

text \<open>\<open>xs[0].get(key, '') if xs else ''\<close>.\<close>

definition first_value :: "pyval \<Rightarrow> string \<Rightarrow> pyexn + pyval" where
  "first_value xs key =
     (if truthy xs then and_then (py_first xs) (\<lambda>x. py_get x key (PStr ''''))
      else Inr (PStr ''''))"

definition get_contact_details_body :: "services \<Rightarrow> pyval \<Rightarrow> pyexn + pydict" where
  "get_contact_details_body sv contact_id =
     and_then (people_get sv contact_id) (\<lambda>person.
     and_then (py_get person ''names'' (PList [])) (\<lambda>names.
     and_then (py_get person ''emailAddresses'' (PList [])) (\<lambda>emails.
     and_then (py_get person ''phoneNumbers'' (PList [])) (\<lambda>phones.
     and_then (first_value names ''displayName'') (\<lambda>name.
     and_then (first_value emails ''value'') (\<lambda>email.
     and_then (first_value phones ''value'') (\<lambda>phone.
       Inr [(''success'', PBool True), (''contact_id'', contact_id), (''name'', name),
            (''email'', email), (''phone'', phone)])))))))"

definition get_contact_details :: "services \<Rightarrow> pyval \<Rightarrow> pydict" where
  "get_contact_details sv contact_id =
     catching ''Error getting contact details: '' (get_contact_details_body sv contact_id)"

subsection \<open>\<open>_get_free_slots\<close>\<close>

text \<open>
  \<open>datetime.datetime.fromisoformat(obj.replace('Z', '+00:00'))\<close>: only a string has
  the method \<open>replace\<close>.
\<close>

definition parse_datetime :: "services \<Rightarrow> pyval \<Rightarrow> pyexn + pydatetime" where
  "parse_datetime sv obj =
     (case obj of
        PStr s \<Rightarrow> datetime_fromisoformat sv (replace_Z s)
      | _ \<Rightarrow> Inl (no_attribute obj ''replace''))"

text \<open>The loop that turns the busy periods of the answer into pairs of \<open>datetime\<close>s.\<close>

fun parse_periods :: "services \<Rightarrow> pyval list \<Rightarrow> pyexn + busy_period list" where
  "parse_periods sv [] = Inr []"
| "parse_periods sv (period # rest) =
     and_then (py_item period ''start'') (\<lambda>start_text.
     and_then (parse_datetime sv start_text) (\<lambda>start.
     and_then (py_item period ''end'') (\<lambda>end_text.
     and_then (parse_datetime sv end_text) (\<lambda>end.
     and_then (parse_periods sv rest) (\<lambda>busy_periods.
       Inr ((start, end) # busy_periods))))))"

text \<open>A free slot as the result holds it: two ISO strings with a trailing \<open>Z\<close>.\<close>

definition slot_dict :: "services \<Rightarrow> int \<times> int \<Rightarrow> pyval" where
  "slot_dict sv slot =
     PDict [(''start_time'', PStr (datetime_isoformat sv (fst slot) @ ''Z'')),
            (''end_time'', PStr (datetime_isoformat sv (snd slot) @ ''Z''))]"

definition get_free_slots_body :: "services \<Rightarrow> pyval \<Rightarrow> pyval \<Rightarrow> pyval \<Rightarrow> pyexn + pydict" where
  "get_free_slots_body sv user_id other_user_id date =
     and_then (if truthy date
               then (case date of
                       PStr d \<Rightarrow> date_fromisoformat sv d
                     | _ \<Rightarrow> Inl (TypeError ''fromisoformat: argument must be str''))
               else Inr (today sv + 1)) (\<lambda>base_date.
       let contact_details = get_contact_details sv other_user_id in
       if \<not> truthy (dict_get_default contact_details ''success'' (PBool False))
       then Inr (failure ''Could not find contact email'')
       else
         let contact_email = dict_get_default contact_details ''email'' (PStr '''') in
         if \<not> truthy contact_email
         then Inr (failure ''Contact does not have an email address'')
         else
           let time_min = combine base_date 9;
               time_max = combine base_date 17
           in
           and_then (freebusy_query sv time_min time_max contact_email) (\<lambda>freebusy.
           and_then (py_get freebusy ''calendars'' (PDict [])) (\<lambda>calendars.
           and_then (py_get calendars ''primary'' (PDict [])) (\<lambda>primary.
           and_then (py_get primary ''busy'' (PList [])) (\<lambda>primary_busy.
           and_then (py_get_value calendars contact_email (PDict [])) (\<lambda>other.
           and_then (py_get other ''busy'' (PList [])) (\<lambda>other_busy.
           and_then (py_add primary_busy other_busy) (\<lambda>all_busy.
           and_then (py_iter all_busy) (\<lambda>periods.
           and_then (parse_periods sv periods) (\<lambda>busy_periods.
           and_then (find_free_slots time_min time_max (minutes 30) busy_periods) (\<lambda>free_slots.
             Inr [(''success'', PBool True),
                  (''date'', PStr (date_isoformat sv base_date)),
                  (''slots'', PList (map (slot_dict sv) free_slots))])))))))))))"

definition get_free_slots :: "services \<Rightarrow> pyval \<Rightarrow> pyval \<Rightarrow> pyval \<Rightarrow> pydict" where
  "get_free_slots sv user_id other_user_id date =
     catching ''Error getting free slots: '' (get_free_slots_body sv user_id other_user_id date)"

text \<open>
  The day whose work window \<open>_get_free_slots\<close> searches, as its first statement
  computes it: the parsed \<open>date\<close> when one is given, tomorrow otherwise; parsing
  can raise.
\<close>

definition base_date_of :: "services \<Rightarrow> pyval \<Rightarrow> pyexn + int" where
  "base_date_of sv date =
     (if truthy date
      then (case date of
              PStr d \<Rightarrow> date_fromisoformat sv d
            | _ \<Rightarrow> Inl (TypeError ''fromisoformat: argument must be str''))
      else Inr (today sv + 1))"

subsection \<open>\<open>_get_meeting_preferences\<close>\<close>

definition ask_user_for_preferences :: pydict where
  "ask_user_for_preferences =
     [(''success'', PBool True), (''duration'', PInt 45),
      (''preferred_times'', PList [PStr ''afternoon'']), (''buffer'', PInt 10)]"

definition get_meeting_preferences :: "pyval \<Rightarrow> pyval \<Rightarrow> pydict" where
  "get_meeting_preferences user_id ask_user =
     (if truthy ask_user then ask_user_for_preferences
      else [(''success'', PBool True), (''duration'', PInt 30),
            (''preferred_times'', PList [PStr ''morning'', PStr ''afternoon'']),
            (''buffer'', PInt 15)])"

subsection \<open>\<open>_check_availability\<close>\<close>

definition check_availability_body :: "services \<Rightarrow> pyval \<Rightarrow> pyval \<Rightarrow> pyval \<Rightarrow> pyexn + pydict" where
  "check_availability_body sv user_id start_time end_time =
     and_then (parse_datetime sv start_time) (\<lambda>start_dt.
     and_then (parse_datetime sv end_time) (\<lambda>end_dt.
     and_then (events_list sv start_dt end_dt) (\<lambda>events_result.
     and_then (py_get events_result ''items'' (PList [])) (\<lambda>events.
     and_then (py_len events) (\<lambda>count.
       Inr [(''success'', PBool True), (''is_available'', PBool (count = 0)),
            (''conflicting_events'', PInt count)])))))"

definition check_availability :: "services \<Rightarrow> pyval \<Rightarrow> pyval \<Rightarrow> pyval \<Rightarrow> pydict" where
  "check_availability sv user_id start_time end_time =
     catching ''Error checking availability: '' (check_availability_body sv user_id start_time end_time)"

subsection \<open>\<open>_book_meeting\<close>\<close>

text \<open>
  The loop over the attendees, with the addresses collected so far (each stands
  for the dictionary \<open>{"email": address}\<close>). An attendee without \<open>@\<close> is looked
  up in the directory and left out when the lookup fails or gives no address.
\<close>

fun attendee_emails :: "services \<Rightarrow> pyval list \<Rightarrow> pyval list \<Rightarrow> pyexn + pyval list" where
  "attendee_emails sv [] emails = Inr emails"
| "attendee_emails sv (attendee_id # rest) emails =
     and_then (contains_at attendee_id) (\<lambda>is_address.
       if is_address then attendee_emails sv rest (emails @ [attendee_id])
       else
         (let contact = get_contact_details sv attendee_id in
          if truthy (dict_get_default contact ''success'' (PBool False))
             \<and> truthy (dict_get contact ''email'')
          then and_then (py_item (PDict contact) ''email'') (\<lambda>email.
                 attendee_emails sv rest (emails @ [email]))
          else attendee_emails sv rest emails))"

definition book_meeting_body ::
  "services \<Rightarrow> pyval \<Rightarrow> pyval \<Rightarrow> pyval \<Rightarrow> pyval \<Rightarrow> pyval \<Rightarrow> pyexn + pydict" where
  "book_meeting_body sv title attendees start_time end_time description =
     and_then (py_iter attendees) (\<lambda>attendee_ids.
     and_then (attendee_emails sv attendee_ids []) (\<lambda>emails.
       let event =
             [(''summary'', title),
              (''description'', description),
              (''start'', PDict [(''dateTime'', start_time), (''timeZone'', PStr ''UTC'')]),
              (''end'', PDict [(''dateTime'', end_time), (''timeZone'', PStr ''UTC'')]),
              (''attendees'', PList (map (\<lambda>email. PDict [(''email'', email)]) emails)),
              (''reminders'', PDict [(''useDefault'', PBool True)])]
       in
       and_then (events_insert sv event) (\<lambda>created.
       and_then (py_get created ''id'' PNone) (\<lambda>meeting_id.
       and_then (py_get created ''htmlLink'' PNone) (\<lambda>link.
         Inr [(''success'', PBool True), (''meeting_id'', meeting_id), (''title'', title),
              (''start_time'', start_time), (''end_time'', end_time),
              (''attendees'', PList emails), (''link'', link)])))))"

definition book_meeting ::
  "services \<Rightarrow> pyval \<Rightarrow> pyval \<Rightarrow> pyval \<Rightarrow> pyval \<Rightarrow> pyval \<Rightarrow> pydict" where
  "book_meeting sv title attendees start_time end_time description =
     catching ''Error booking meeting: ''
       (book_meeting_body sv title attendees start_time end_time description)"

subsection \<open>Dispatch\<close>

text \<open>\<open>params[key]\<close>, outside every \<open>try\<close>.\<close>

definition param :: "pydict \<Rightarrow> string \<Rightarrow> pyexn + pyval" where
  "param parameters key = (case map_of parameters key of None \<Rightarrow> Inl (key_error key) | Some v \<Rightarrow> Inr v)"

definition execute_contacts_api :: "services \<Rightarrow> string \<Rightarrow> pydict \<Rightarrow> pyexn + pydict" where
  "execute_contacts_api sv action_name parameters =
     (if action_name = ''find_contact'' then
        and_then (param parameters ''name'') (\<lambda>name. Inr (find_contact sv name))
      else if action_name = ''get_contact_details'' then
        and_then (param parameters ''contact_id'') (\<lambda>contact_id. Inr (get_contact_details sv contact_id))
      else Inr (failure (''Unknown contacts action: '' @ action_name)))"

definition execute_calendar_api :: "services \<Rightarrow> string \<Rightarrow> pydict \<Rightarrow> pyexn + pydict" where
  "execute_calendar_api sv action_name parameters =
     (if action_name = ''check_availability'' then
        and_then (param parameters ''user_id'') (\<lambda>user_id.
        and_then (param parameters ''start_time'') (\<lambda>start_time.
        and_then (param parameters ''end_time'') (\<lambda>end_time.
          Inr (check_availability sv user_id start_time end_time))))
      else if action_name = ''get_free_slots'' then
        and_then (param parameters ''user_id'') (\<lambda>user_id.
        and_then (param parameters ''other_user_id'') (\<lambda>other_user_id.
          Inr (get_free_slots sv user_id other_user_id (dict_get parameters ''date''))))
      else if action_name = ''book_meeting'' then
        and_then (param parameters ''title'') (\<lambda>title.
        and_then (param parameters ''attendees'') (\<lambda>attendees.
        and_then (param parameters ''start_time'') (\<lambda>start_time.
        and_then (param parameters ''end_time'') (\<lambda>end_time.
          Inr (book_meeting sv title attendees start_time end_time
                 (dict_get_default parameters ''description'' (PStr '''')))))))
      else Inr (failure (''Unknown calendar action: '' @ action_name)))"

definition execute_preferences_api :: "services \<Rightarrow> string \<Rightarrow> pydict \<Rightarrow> pyexn + pydict" where
  "execute_preferences_api sv action_name parameters =
     (if action_name = ''get_meeting_preferences'' then
        and_then (param parameters ''user_id'') (\<lambda>user_id.
          Inr (get_meeting_preferences user_id (dict_get_default parameters ''ask_user'' (PBool False))))
      else Inr (failure (''Unknown preferences action: '' @ action_name)))"

definition execute :: "services \<Rightarrow> string \<Rightarrow> string \<Rightarrow> pydict \<Rightarrow> pyexn + pydict" where
  "execute sv api_name action_name parameters =
     (if api_name = ''contacts'' then execute_contacts_api sv action_name parameters
      else if api_name = ''calendar'' then execute_calendar_api sv action_name parameters
      else if api_name = ''preferences'' then execute_preferences_api sv action_name parameters
      else Inr (failure (''Unknown API: '' @ api_name)))"

text \<open>
  The parameter keys that each recognized action reads with \<open>params[key]\<close>, in
  the order in which the dispatch evaluates them.
\<close>

definition required_keys :: "string \<Rightarrow> string \<Rightarrow> string list" where
  "required_keys api_name action_name =
     (if api_name = ''contacts'' \<and> action_name = ''find_contact'' then [''name'']
      else if api_name = ''contacts'' \<and> action_name = ''get_contact_details'' then [''contact_id'']
      else if api_name = ''calendar'' \<and> action_name = ''check_availability''
        then [''user_id'', ''start_time'', ''end_time'']
      else if api_name = ''calendar'' \<and> action_name = ''get_free_slots''
        then [''user_id'', ''other_user_id'']
      else if api_name = ''calendar'' \<and> action_name = ''book_meeting''
        then [''title'', ''attendees'', ''start_time'', ''end_time'']
      else if api_name = ''preferences'' \<and> action_name = ''get_meeting_preferences''
        then [''user_id'']
      else [])"

text \<open>The first required key that the parameters lack, if any.\<close>

definition first_missing :: "string \<Rightarrow> string \<Rightarrow> pydict \<Rightarrow> string option" where
  "first_missing api_name action_name parameters =
     List.find (\<lambda>key. map_of parameters key = None) (required_keys api_name action_name)"

text \<open>The api and action pairs that the dispatch knows.\<close>

definition recognized :: "string \<Rightarrow> string \<Rightarrow> bool" where
  "recognized api_name action_name =
     ((api_name = ''contacts'' \<and> (action_name = ''find_contact'' \<or> action_name = ''get_contact_details''))
      \<or> (api_name = ''calendar'' \<and> (action_name = ''check_availability''
            \<or> action_name = ''get_free_slots'' \<or> action_name = ''book_meeting''))
      \<or> (api_name = ''preferences'' \<and> action_name = ''get_meeting_preferences''))"

section \<open>Concrete inputs\<close>

definition always_failing :: executor where
  "always_failing calls step = Inr [(''success'', PBool False)]"

definition contact_step :: plan_step where
  "contact_step = \<lparr>api = ''contacts'', action = ''find_contact'',
                    params = [(''name'', PStr ''Chinmay Sir'')]\<rparr>"

definition slots_step :: plan_step where
  "slots_step = \<lparr>api = ''calendar'', action = ''get_free_slots'',
                  params = [(''user_id'', PStr ''primary''),
                            (''other_user_id'', PStr ''PLACEHOLDER''),
                            (''date'', PStr ''2024-05-06'')]\<rparr>"

definition preferences_step :: plan_step where
  "preferences_step = \<lparr>api = ''preferences'', action = ''get_meeting_preferences'',
                        params = [(''user_id'', PStr ''primary''), (''ask_user'', PBool True)]\<rparr>"

definition new_agent :: agent where
  "new_agent = \<lparr>pending_action = None, pending_action_contact_id = None\<rparr>"

definition contact_found :: executor where
  "contact_found calls step =
     (if action step = ''find_contact''
      then Inr [(''success'', PBool True), (''contact_id'', PStr ''c42''),
                (''name'', PStr ''Chinmay Sir''), (''email'', PStr ''chinmay@example.org'')]
      else Inr [(''success'', PBool False), (''error'', PStr ''Could not find contact email'')])"

definition fixed_intent :: pydict where
  "fixed_intent = [(''action'', PStr ''book_meeting''),
                   (''contact_name'', PStr ''Chinmay Sir''),
                   (''ask_preferences'', PBool False)]"

text \<open>
  Services whose directory is down (every People API request raises) while the
  calendar works.
\<close>

definition directory_down :: services where
  "directory_down =
     \<lparr>connections_list = Inl (ServiceError ''HttpError 503''),
      people_get = (\<lambda>contact_id. Inl (ServiceError ''HttpError 503'')),
      freebusy_query = (\<lambda>time_min time_max email. Inr (PDict [(''calendars'', PDict [])])),
      events_list = (\<lambda>start_dt end_dt. Inr (PDict [(''items'', PList [])])),
      events_insert = (\<lambda>event. Inr (PDict [(''id'', PStr ''evt1''),
                                             (''htmlLink'', PStr ''https://calendar.example/evt1'')])),
      today = 19848,
      date_fromisoformat = (\<lambda>text. Inr 19849),
      datetime_fromisoformat = (\<lambda>text. Inr (Naive 0)),
      date_isoformat = (\<lambda>date. ''2024-05-06''),
      datetime_isoformat = (\<lambda>time. ''2024-05-06T09:00:00''),
      lower = (\<lambda>text. text)\<rparr>"

text \<open>Services whose calendar is down (every Calendar API request raises).\<close>

definition calendar_down :: services where
  "calendar_down =
     \<lparr>connections_list = Inr (PDict [(''connections'', PList [])]),
      people_get = (\<lambda>contact_id.
        Inr (PDict [(''names'', PList [PDict [(''displayName'', PStr ''Chinmay Sir'')]]),
                    (''emailAddresses'', PList [PDict [(''value'', PStr ''chinmay@example.org'')]])])),
      freebusy_query = (\<lambda>time_min time_max email. Inl (ServiceError ''HttpError 500'')),
      events_list = (\<lambda>start_dt end_dt. Inl (ServiceError ''HttpError 500'')),
      events_insert = (\<lambda>event. Inl (ServiceError ''HttpError 500'')),
      today = 19848,
      date_fromisoformat = (\<lambda>text. Inr 19849),
      datetime_fromisoformat = (\<lambda>text. Inr (Naive 0)),
      date_isoformat = (\<lambda>date. ''2024-05-06''),
      datetime_isoformat = (\<lambda>time. ''2024-05-06T09:00:00''),
      lower = (\<lambda>text. text)\<rparr>"

definition booking_params :: pydict where
  "booking_params =
     [(''title'', PStr ''Sync''), (''attendees'', PList [PStr ''c42'']),
      (''start_time'', PStr ''2024-05-06T09:00:00Z''), (''end_time'', PStr ''2024-05-06T09:30:00Z'')]"

text \<open>The directory is down and the date parser accepts one date only.\<close>

definition strict_dates :: services where
  "strict_dates =
     directory_down
       \<lparr>date_fromisoformat :=
          (\<lambda>text. if text = ''2024-05-06'' then Inr 19849
                  else Inl (ValueError (''Invalid isoformat string: '' @ squote text)))\<rparr>"

definition three_attendees :: pydict where
  "three_attendees =
     [(''title'', PStr ''Sync''),
      (''attendees'', PList [PStr ''ana@example.org'', PStr ''c42'', PStr ''bo@example.org'']),
      (''start_time'', PStr ''2024-05-06T09:00:00Z''), (''end_time'', PStr ''2024-05-06T09:30:00Z'')]"

definition answering :: llm where
  "answering prompt = Inr ''The user wants to book a meeting.''"

text \<open>Parsers whose intent has no action, or an action other than \<open>book_meeting\<close>.\<close>

definition parser_without_action :: "string \<Rightarrow> pyexn + pydict" where
  "parser_without_action prompt = Inr [(''contact_name'', PStr ''Chinmay Sir'')]"

definition parser_of_small_talk :: "string \<Rightarrow> pyexn + pydict" where
  "parser_of_small_talk prompt = Inr [(''action'', PStr ''unknown'')]"

text \<open>
  A Plan Builder that returns its plan (the one of
  google_calendar_integration_openai.py) and a Plan Runner called with both of its
  arguments, on a new agent and an executor that has received no call.
\<close>

definition returning_builder :: "pydict \<Rightarrow> string \<Rightarrow> pyexn + plan_step list" where
  "returning_builder intent user_id = Inr (integration_create_execution_plan intent user_id)"

definition run_with :: "executor \<Rightarrow> string \<Rightarrow> plan_step list \<Rightarrow> pyexn + results" where
  "run_with ex prompt plan = fst (execute_plan ex plan prompt new_agent [])"

definition unreachable :: llm where
  "unreachable prompt = Inl (ServiceError ''Connection error.'')"

section \<open>Properties of the Response Synthesizer\<close>

lemma generate_response_no_contact:
  "\<not> successful results ''contacts_find_contact'' \<Longrightarrow>
   generate_response prompt results = \<lparr>message = ''Failed to find contact.'', status = ''error''\<rparr>"
  by (simp add: generate_response_def successful_def split: option.splits)

lemma generate_response_no_slots_result:
  "successful results ''contacts_find_contact'' \<Longrightarrow>
   \<not> successful results ''calendar_get_free_slots'' \<Longrightarrow>
   generate_response prompt results =
     \<lparr>message = ''Failed to find available slots. Please specify a date.'', status = ''error''\<rparr>"
  by (auto simp: generate_response_def successful_def split: option.splits)

lemma generate_response_slots:
  "successful results ''contacts_find_contact'' \<Longrightarrow>
   successful results ''calendar_get_free_slots'' \<Longrightarrow>
   generate_response prompt results =
     (if truthy (slots_of results)
      then \<lparr>message = ''Meeting slots found and processed.'', status = ''success''\<rparr>
      else \<lparr>message = ''There are no available time slots. Would you like to try a different day?'',
            status = ''success''\<rparr>)"
  by (auto simp: generate_response_def successful_def slots_of_def Let_def split: option.splits)

lemma generate_response_one_of_four:
  "generate_response prompt results =
     \<lparr>message = ''Failed to find contact.'', status = ''error''\<rparr>
   \<or> generate_response prompt results =
     \<lparr>message = ''Failed to find available slots. Please specify a date.'', status = ''error''\<rparr>
   \<or> generate_response prompt results =
     \<lparr>message = ''There are no available time slots. Would you like to try a different day?'',
       status = ''success''\<rparr>
   \<or> generate_response prompt results =
     \<lparr>message = ''Meeting slots found and processed.'', status = ''success''\<rparr>"
  unfolding generate_response_def Let_def
  by (cases "map_of results ''contacts_find_contact''";
      cases "map_of results ''calendar_get_free_slots''") simp_all

text \<open>
  Claim C7. The Response Synthesizer depends on the results mapping only (the prompt
  is ignored) and has exactly four outcomes: no successful \<open>contacts_find_contact\<close>
  result gives "Failed to find contact." with status error; a found contact without a
  successful \<open>calendar_get_free_slots\<close> result gives "Failed to find available slots.
  Please specify a date." with status error; a successful slot lookup whose slots
  list is empty gives "There are no available time slots. Would you like to try a
  different day?" with status success; a non-empty slots list gives "Meeting slots
  found and processed." with status success.
\<close>

theorem generate_response_four_outcomes:
  "generate_response prompt results = generate_response prompt' results
   \<and> (\<not> successful results ''contacts_find_contact'' \<longrightarrow>
        generate_response prompt results =
          \<lparr>message = ''Failed to find contact.'', status = ''error''\<rparr>)
   \<and> (successful results ''contacts_find_contact''
        \<and> \<not> successful results ''calendar_get_free_slots'' \<longrightarrow>
        generate_response prompt results =
          \<lparr>message = ''Failed to find available slots. Please specify a date.'',
            status = ''error''\<rparr>)
   \<and> (successful results ''contacts_find_contact''
        \<and> successful results ''calendar_get_free_slots''
        \<and> slots_of results = PList [] \<longrightarrow>
        generate_response prompt results =
          \<lparr>message = ''There are no available time slots. Would you like to try a different day?'',
            status = ''success''\<rparr>)
   \<and> (successful results ''contacts_find_contact''
        \<and> successful results ''calendar_get_free_slots''
        \<and> (\<exists>x xs. slots_of results = PList (x # xs)) \<longrightarrow>
        generate_response prompt results =
          \<lparr>message = ''Meeting slots found and processed.'', status = ''success''\<rparr>)
   \<and> (generate_response prompt results =
          \<lparr>message = ''Failed to find contact.'', status = ''error''\<rparr>
        \<or> generate_response prompt results =
          \<lparr>message = ''Failed to find available slots. Please specify a date.'',
            status = ''error''\<rparr>
        \<or> generate_response prompt results =
          \<lparr>message = ''There are no available time slots. Would you like to try a different day?'',
            status = ''success''\<rparr>
        \<or> generate_response prompt results =
          \<lparr>message = ''Meeting slots found and processed.'', status = ''success''\<rparr>)"
proof (intro conjI impI)
  show "generate_response prompt results = generate_response prompt' results"
    by (simp add: generate_response_def)
next
  assume "\<not> successful results ''contacts_find_contact''"
  then show "generate_response prompt results =
      \<lparr>message = ''Failed to find contact.'', status = ''error''\<rparr>"
    by (rule generate_response_no_contact)
next
  assume "successful results ''contacts_find_contact''
      \<and> \<not> successful results ''calendar_get_free_slots''"
  then show "generate_response prompt results =
      \<lparr>message = ''Failed to find available slots. Please specify a date.'', status = ''error''\<rparr>"
    by (simp add: generate_response_no_slots_result)
next
  assume "successful results ''contacts_find_contact''
      \<and> successful results ''calendar_get_free_slots'' \<and> slots_of results = PList []"
  then show "generate_response prompt results =
      \<lparr>message = ''There are no available time slots. Would you like to try a different day?'',
        status = ''success''\<rparr>"
    by (simp add: generate_response_slots)
next
  assume "successful results ''contacts_find_contact''
      \<and> successful results ''calendar_get_free_slots''
      \<and> (\<exists>x xs. slots_of results = PList (x # xs))"
  then show "generate_response prompt results =
      \<lparr>message = ''Meeting slots found and processed.'', status = ''success''\<rparr>"
    by (auto simp: generate_response_slots)
next
  show "generate_response prompt results =
          \<lparr>message = ''Failed to find contact.'', status = ''error''\<rparr>
        \<or> generate_response prompt results =
          \<lparr>message = ''Failed to find available slots. Please specify a date.'',
            status = ''error''\<rparr>
        \<or> generate_response prompt results =
          \<lparr>message = ''There are no available time slots. Would you like to try a different day?'',
            status = ''success''\<rparr>
        \<or> generate_response prompt results =
          \<lparr>message = ''Meeting slots found and processed.'', status = ''success''\<rparr>"
    by (rule generate_response_one_of_four)
qed

theorem generate_response_four_outcomes_witness:
  "\<not> successful [] ''contacts_find_contact''
   \<and> generate_response ''Book a meeting with John'' [] =
       \<lparr>message = ''Failed to find contact.'', status = ''error''\<rparr>
   \<and> successful [(''contacts_find_contact'', [(''success'', PBool True)]),
                  (''calendar_get_free_slots'', [(''success'', PBool False)])]
        ''contacts_find_contact''
   \<and> \<not> successful [(''contacts_find_contact'', [(''success'', PBool True)]),
                    (''calendar_get_free_slots'', [(''success'', PBool False)])]
        ''calendar_get_free_slots''
   \<and> generate_response ''Book a meeting with John''
        [(''contacts_find_contact'', [(''success'', PBool True)]),
         (''calendar_get_free_slots'', [(''success'', PBool False)])] =
       \<lparr>message = ''Failed to find available slots. Please specify a date.'',
         status = ''error''\<rparr>
   \<and> successful [(''contacts_find_contact'', [(''success'', PBool True)]),
                  (''calendar_get_free_slots'', [(''success'', PBool True), (''slots'', PList [])])]
        ''calendar_get_free_slots''
   \<and> generate_response ''Book a meeting with John''
        [(''contacts_find_contact'', [(''success'', PBool True)]),
         (''calendar_get_free_slots'', [(''success'', PBool True), (''slots'', PList [])])] =
       \<lparr>message = ''There are no available time slots. Would you like to try a different day?'',
         status = ''success''\<rparr>
   \<and> generate_response ''Book a meeting with John''
        [(''contacts_find_contact'', [(''success'', PBool True)]),
         (''calendar_get_free_slots'',
          [(''success'', PBool True), (''slots'', PList [PDict [(''start_time'', PStr ''09:00'')]])])] =
       \<lparr>message = ''Meeting slots found and processed.'', status = ''success''\<rparr>"
proof -
  let ?p = "''Book a meeting with John''"
  let ?found = "(''contacts_find_contact'', [(''success'', PBool True)])"
  have s0: "\<not> successful [] ''contacts_find_contact''"
    by (simp add: successful_def)
  have s1: "successful [?found, (''calendar_get_free_slots'', [(''success'', PBool False)])]
      ''contacts_find_contact''"
    by (simp add: successful_def dict_get_def)
  have s2: "\<not> successful [?found, (''calendar_get_free_slots'', [(''success'', PBool False)])]
      ''calendar_get_free_slots''"
    by (simp add: successful_def dict_get_def)
  have s3: "successful [?found, (''calendar_get_free_slots'', [(''success'', PBool True), (''slots'', PList [])])]
      ''contacts_find_contact''"
    by (simp add: successful_def dict_get_def)
  have s4: "successful [?found, (''calendar_get_free_slots'', [(''success'', PBool True), (''slots'', PList [])])]
      ''calendar_get_free_slots''"
    by (simp add: successful_def dict_get_def)
  have s5: "slots_of [?found, (''calendar_get_free_slots'', [(''success'', PBool True), (''slots'', PList [])])]
      = PList []"
    by (simp add: slots_of_def dict_get_default_def)
  let ?r4 = "[?found, (''calendar_get_free_slots'',
      [(''success'', PBool True), (''slots'', PList [PDict [(''start_time'', PStr ''09:00'')]])])]"
  have s6: "successful ?r4 ''contacts_find_contact''"
    by (simp add: successful_def dict_get_def)
  have s7: "successful ?r4 ''calendar_get_free_slots''"
    by (simp add: successful_def dict_get_def)
  have s8: "\<exists>x xs. slots_of ?r4 = PList (x # xs)"
    by (simp add: slots_of_def dict_get_default_def)
  have g0: "generate_response ?p [] = \<lparr>message = ''Failed to find contact.'', status = ''error''\<rparr>"
    by (rule generate_response_four_outcomes [THEN conjunct2, THEN conjunct1, THEN mp, OF s0])
  have g1: "generate_response ?p [?found, (''calendar_get_free_slots'', [(''success'', PBool False)])] =
       \<lparr>message = ''Failed to find available slots. Please specify a date.'', status = ''error''\<rparr>"
    by (rule generate_response_four_outcomes
        [THEN conjunct2, THEN conjunct2, THEN conjunct1, THEN mp, OF conjI [OF s1 s2]])
  have g2: "generate_response ?p
        [?found, (''calendar_get_free_slots'', [(''success'', PBool True), (''slots'', PList [])])] =
       \<lparr>message = ''There are no available time slots. Would you like to try a different day?'',
         status = ''success''\<rparr>"
    by (rule generate_response_four_outcomes
        [THEN conjunct2, THEN conjunct2, THEN conjunct2, THEN conjunct1, THEN mp,
         OF conjI [OF s3 conjI [OF s4 s5]]])
  have g3: "generate_response ?p ?r4 =
       \<lparr>message = ''Meeting slots found and processed.'', status = ''success''\<rparr>"
    by (rule generate_response_four_outcomes
        [THEN conjunct2, THEN conjunct2, THEN conjunct2, THEN conjunct2, THEN conjunct1, THEN mp,
         OF conjI [OF s6 conjI [OF s7 s8]]])
  show ?thesis by (intro conjI s0 g0 s1 s2 g1 s4 g2 g3)
qed

section \<open>Properties of the Plan Runner\<close>

lemma run_steps_passes:
  "passes ex calls pre \<Longrightarrow>
   run_steps ex (pre @ post) results ag calls =
     run_steps ex post (collect ex pre results calls) ag (calls @ pre)"
proof (induction pre arbitrary: results calls)
  case Nil
  then show ?case by simp
next
  case (Cons step pre)
  from Cons.prems obtain result where r: "ex calls step = Inr result"
    and ns: "\<not> suspending ex calls step" and p: "passes ex (calls @ [step]) pre"
    by auto
  from r ns have c: "(action step = ''get_free_slots'' \<and> \<not> truthy (dict_get result ''success'')) = False"
    by (simp add: suspending_def)
  have "run_steps ex ((step # pre) @ post) results ag calls =
        run_steps ex (pre @ post) (AList.update (api step @ ''_'' @ action step) result results) ag (calls @ [step])"
    using r by (simp add: Let_def c del: AList.update.simps)
  also have "\<dots> = run_steps ex post
      (collect ex pre (AList.update (api step @ ''_'' @ action step) result results) (calls @ [step]))
      ag ((calls @ [step]) @ pre)"
    by (rule Cons.IH [OF p])
  also have "\<dots> = run_steps ex post (collect ex (step # pre) results calls) ag (calls @ step # pre)"
    using r by simp
  finally show ?case .
qed

lemma run_steps_suspending:
  assumes "suspending ex calls step" and "map_of (params step) ''other_user_id'' = Some contact_id"
  shows "run_steps ex (step # post) results ag calls =
     (Inr (collect ex [step] results calls),
      ag\<lparr>pending_action := Some ''get_free_slots'', pending_action_contact_id := Some contact_id\<rparr>,
      calls @ [step])"
  using assms by (auto simp: suspending_def Let_def split: sum.splits)

lemma run_steps_suspending_any:
  assumes "suspending ex calls step"
  shows "snd (snd (run_steps ex (step # post) results ag calls)) = calls @ [step]
    \<and> pending_action (fst (snd (run_steps ex (step # post) results ag calls)))
        = Some ''get_free_slots''"
  using assms by (auto simp: suspending_def Let_def split: sum.splits option.splits)

lemma run_steps_calls_prefix:
  "\<exists>k\<le>length plan. snd (snd (run_steps ex plan results ag calls)) = calls @ take k plan"
proof (induction plan arbitrary: results ag calls)
  case Nil
  then show ?case by simp
next
  case (Cons step plan)
  show ?case
  proof (cases "ex calls step")
    case (Inl e)
    then have "snd (snd (run_steps ex (step # plan) results ag calls)) = calls @ take 1 (step # plan)"
      by simp
    then show ?thesis by (intro exI[of _ 1]) simp
  next
    case (Inr result)
    show ?thesis
    proof (cases "action step = ''get_free_slots'' \<and> \<not> truthy (dict_get result ''success'')")
      case True
      with Inr have "snd (snd (run_steps ex (step # plan) results ag calls)) = calls @ take 1 (step # plan)"
        by (simp add: Let_def split: option.splits)
      then show ?thesis by (intro exI[of _ 1]) simp
    next
      case False
      from Cons.IH [of "AList.update (api step @ ''_'' @ action step) result results" ag "calls @ [step]"]
      obtain k where k: "k \<le> length plan"
        and eq: "snd (snd (run_steps ex plan (AList.update (api step @ ''_'' @ action step) result results) ag (calls @ [step])))
                 = (calls @ [step]) @ take k plan"
        by blast
      from False have c: "(action step = ''get_free_slots'' \<and> \<not> truthy (dict_get result ''success'')) = False"
        by simp
      from Inr eq
      have "snd (snd (run_steps ex (step # plan) results ag calls)) = calls @ take (Suc k) (step # plan)"
        by (simp add: Let_def c del: AList.update.simps)
      with k show ?thesis by (intro exI[of _ "Suc k"]) simp
    qed
  qed
qed

lemma length_update_le: "length (AList.update k v al) \<le> Suc (length al)"
  by (induction al) auto

lemma length_collect: "length (collect ex steps results calls) \<le> length results + length steps"
proof (induction steps arbitrary: results calls)
  case Nil
  then show ?case by simp
next
  case (Cons step steps)
  show ?case
  proof (cases "ex calls step")
    case (Inl e)
    then show ?thesis by simp
  next
    case (Inr result)
    have "length (AList.update (api step @ ''_'' @ action step) result results) \<le> Suc (length results)"
      by (rule length_update_le)
    with Cons.IH [of "AList.update (api step @ ''_'' @ action step) result results" "calls @ [step]"] Inr
    show ?thesis by (simp del: AList.update.simps)
  qed
qed

lemma not_suspending_other_action:
  "action step \<noteq> ''get_free_slots'' \<Longrightarrow> \<not> suspending ex calls step"
  by (simp add: suspending_def split: sum.splits)

lemma passes_append:
  "passes ex calls (pre @ post) = (passes ex calls pre \<and> passes ex (calls @ pre) post)"
  by (induction pre arbitrary: calls) auto

lemma collect_append:
  "passes ex calls pre \<Longrightarrow>
   collect ex (pre @ post) results calls = collect ex post (collect ex pre results calls) (calls @ pre)"
  by (induction pre arbitrary: results calls) (auto simp del: AList.update.simps)

lemma run_steps_results_bound:
  "fst (run_steps ex plan results ag calls) = Inr results' \<Longrightarrow>
   length results' \<le> length results + length plan"
proof (induction plan arbitrary: results calls)
  case Nil
  then show ?case by simp
next
  case (Cons step plan)
  show ?case
  proof (cases "ex calls step")
    case (Inl e)
    with Cons.prems show ?thesis by simp
  next
    case (Inr result)
    let ?results = "AList.update (api step @ ''_'' @ action step) result results"
    have len: "length ?results \<le> Suc (length results)"
      by (rule length_update_le)
    show ?thesis
    proof (cases "action step = ''get_free_slots'' \<and> \<not> truthy (dict_get result ''success'')")
      case True
      with Inr Cons.prems have "results' = ?results"
        by (auto simp: Let_def simp del: AList.update.simps split: option.splits)
      with len show ?thesis by simp
    next
      case False
      then have c: "(action step = ''get_free_slots'' \<and> \<not> truthy (dict_get result ''success'')) = False"
        by simp
      from Inr Cons.prems have "fst (run_steps ex plan ?results ag (calls @ [step])) = Inr results'"
        by (simp add: Let_def c del: AList.update.simps)
      from Cons.IH [OF this] len show ?thesis by simp
    qed
  qed
qed

lemma run_steps_calls_first:
  "\<exists>k\<le>length rest. snd (snd (run_steps ex (step # rest) results ag calls)) = calls @ step # take k rest"
proof -
  from run_steps_calls_prefix [of "step # rest" ex results ag calls]
  obtain k where k: "k \<le> length (step # rest)"
    and eq: "snd (snd (run_steps ex (step # rest) results ag calls)) = calls @ take k (step # rest)"
    by blast
  have "length (snd (snd (run_steps ex (step # rest) results ag calls))) > length calls"
  proof (cases "ex calls step")
    case (Inl e)
    then show ?thesis by simp
  next
    case (Inr result)
    show ?thesis
    proof (cases "action step = ''get_free_slots'' \<and> \<not> truthy (dict_get result ''success'')")
      case True
      with Inr show ?thesis by (simp add: Let_def split: option.splits)
    next
      case False
      then have c: "(action step = ''get_free_slots'' \<and> \<not> truthy (dict_get result ''success'')) = False"
        by simp
      from run_steps_calls_prefix
        [of rest ex "AList.update (api step @ ''_'' @ action step) result results" ag "calls @ [step]"]
      obtain j where "snd (snd (run_steps ex rest
          (AList.update (api step @ ''_'' @ action step) result results) ag (calls @ [step])))
          = (calls @ [step]) @ take j rest"
        by blast
      with Inr show ?thesis by (simp add: Let_def c del: AList.update.simps)
    qed
  qed
  with eq have "k \<noteq> 0" by auto
  then obtain j where j: "k = Suc j" by (cases k) auto
  with k eq show ?thesis by (intro exI [of _ j]) simp
qed

text \<open>
  Claim C1. The Plan Runner calls the executor on the steps of the plan strictly in
  list order: the calls it makes are a prefix of the plan. When the steps before a
  step have all been answered without suspending, and that step's action is
  \<open>get_free_slots\<close> and its result's \<open>success\<close> is not true, the runner records
  the pending action \<open>get_free_slots\<close> and calls the executor on no later step; with
  it the runner records the \<open>other_user_id\<close> that the step's params hold. A step whose action is not
  \<open>get_free_slots\<close> never suspends, whatever its result: the run goes on with the
  steps after it, and a plan in which no step suspends (and no call raises) is
  executed to its end.
\<close>

theorem execute_plan_order_and_suspension:
  "(\<exists>k\<le>length plan. snd (snd (execute_plan ex plan prompt ag calls)) = calls @ take k plan)
   \<and> (passes ex calls plan \<longrightarrow>
        execute_plan ex plan prompt ag calls = (Inr (collect ex plan [] calls), ag, calls @ plan))
   \<and> (passes ex calls pre \<and> suspending ex (calls @ pre) step \<longrightarrow>
        snd (snd (execute_plan ex (pre @ step # post) prompt ag calls)) = calls @ pre @ [step]
        \<and> pending_action (fst (snd (execute_plan ex (pre @ step # post) prompt ag calls)))
            = Some ''get_free_slots'')
   \<and> (passes ex calls pre \<and> suspending ex (calls @ pre) step
        \<and> map_of (params step) ''other_user_id'' = Some contact_id \<longrightarrow>
        snd (execute_plan ex (pre @ step # post) prompt ag calls) =
          (ag\<lparr>pending_action := Some ''get_free_slots'',
              pending_action_contact_id := Some contact_id\<rparr>,
           calls @ pre @ [step]))
   \<and> (passes ex calls pre \<and> ex (calls @ pre) step' = Inr result
        \<and> action step' \<noteq> ''get_free_slots'' \<longrightarrow>
        \<not> suspending ex (calls @ pre) step'
        \<and> execute_plan ex (pre @ step' # post) prompt ag calls =
            run_steps ex post (collect ex (pre @ [step']) [] calls) ag (calls @ pre @ [step']))"
proof (intro conjI impI)
  show "\<exists>k\<le>length plan. snd (snd (execute_plan ex plan prompt ag calls)) = calls @ take k plan"
    unfolding execute_plan_def by (rule run_steps_calls_prefix)
next
  assume "passes ex calls plan"
  from run_steps_passes [OF this, of "[]" "[]" ag]
  show "execute_plan ex plan prompt ag calls = (Inr (collect ex plan [] calls), ag, calls @ plan)"
    by (simp add: execute_plan_def)
next
  assume h: "passes ex calls pre \<and> suspending ex (calls @ pre) step"
  then have p: "passes ex calls pre" and s: "suspending ex (calls @ pre) step"
    by blast+
  have run: "run_steps ex (pre @ step # post) [] ag calls =
      run_steps ex (step # post) (collect ex pre [] calls) ag (calls @ pre)"
    by (rule run_steps_passes [OF p])
  note stop = run_steps_suspending_any [OF s, of post "collect ex pre [] calls" ag]
  from stop show "snd (snd (execute_plan ex (pre @ step # post) prompt ag calls)) = calls @ pre @ [step]"
    unfolding execute_plan_def run by simp
  from stop show "pending_action (fst (snd (execute_plan ex (pre @ step # post) prompt ag calls)))
      = Some ''get_free_slots''"
    unfolding execute_plan_def run by simp
next
  assume h: "passes ex calls pre \<and> suspending ex (calls @ pre) step
      \<and> map_of (params step) ''other_user_id'' = Some contact_id"
  then have p: "passes ex calls pre" and s: "suspending ex (calls @ pre) step"
    and m: "map_of (params step) ''other_user_id'' = Some contact_id"
    by blast+
  have "run_steps ex (pre @ step # post) [] ag calls =
      run_steps ex (step # post) (collect ex pre [] calls) ag (calls @ pre)"
    by (rule run_steps_passes [OF p])
  also have "\<dots> = (Inr (collect ex [step] (collect ex pre [] calls) (calls @ pre)),
      ag\<lparr>pending_action := Some ''get_free_slots'',
          pending_action_contact_id := Some contact_id\<rparr>, (calls @ pre) @ [step])"
    by (rule run_steps_suspending [OF s m])
  finally have "snd (run_steps ex (pre @ step # post) [] ag calls) =
      (ag\<lparr>pending_action := Some ''get_free_slots'',
          pending_action_contact_id := Some contact_id\<rparr>, (calls @ pre) @ [step])"
    by (rule arg_cong [where f = snd, THEN trans]) (rule snd_conv)
  then show "snd (execute_plan ex (pre @ step # post) prompt ag calls) =
      (ag\<lparr>pending_action := Some ''get_free_slots'',
          pending_action_contact_id := Some contact_id\<rparr>, calls @ pre @ [step])"
    unfolding execute_plan_def append_assoc .
next
  assume h: "passes ex calls pre \<and> ex (calls @ pre) step' = Inr result
      \<and> action step' \<noteq> ''get_free_slots''"
  then show "\<not> suspending ex (calls @ pre) step'"
    by (simp add: not_suspending_other_action)
  with h have p: "passes ex calls (pre @ [step'])"
    by (simp add: passes_append)
  from run_steps_passes [OF p, of post "[]" ag]
  show "execute_plan ex (pre @ step' # post) prompt ag calls =
      run_steps ex post (collect ex (pre @ [step']) [] calls) ag (calls @ pre @ [step'])"
    by (simp add: execute_plan_def)
qed

theorem execute_plan_order_and_suspension_witness:
  "passes always_failing [] [contact_step]
   \<and> suspending always_failing [contact_step] slots_step
   \<and> map_of (params slots_step) ''other_user_id'' = Some (PStr ''PLACEHOLDER'')
   \<and> always_failing [] contact_step = Inr [(''success'', PBool False)]
   \<and> action contact_step \<noteq> ''get_free_slots''
   \<and> snd (execute_plan always_failing [contact_step, slots_step, preferences_step] ''p'' new_agent []) =
        (\<lparr>pending_action = Some ''get_free_slots'',
          pending_action_contact_id = Some (PStr ''PLACEHOLDER'')\<rparr>,
         [contact_step, slots_step])
   \<and> execute_plan always_failing [contact_step, preferences_step] ''p'' new_agent [] =
        (Inr [(''contacts_find_contact'', [(''success'', PBool False)]),
              (''preferences_get_meeting_preferences'', [(''success'', PBool False)])],
         new_agent, [contact_step, preferences_step])"
proof -
  have p1: "passes always_failing [] [contact_step]"
    by (simp add: always_failing_def contact_step_def suspending_def)
  have p2: "passes always_failing [] [contact_step, preferences_step]"
    by (simp add: always_failing_def contact_step_def preferences_step_def suspending_def)
  have s: "suspending always_failing ([] @ [contact_step]) slots_step"
    by (simp add: always_failing_def slots_step_def suspending_def dict_get_def)
  have m: "map_of (params slots_step) ''other_user_id'' = Some (PStr ''PLACEHOLDER'')"
    by (simp add: slots_step_def)
  have a: "always_failing ([] @ []) contact_step = Inr [(''success'', PBool False)]"
    by (simp add: always_failing_def)
  have n: "action contact_step \<noteq> ''get_free_slots''"
    by (simp add: contact_step_def)
  note t = execute_plan_order_and_suspension
    [where ex = always_failing and calls = "[]" and ag = new_agent and prompt = "''p''"]
  from t [where pre = "[contact_step]" and step = slots_step and post = "[preferences_step]"
            and contact_id = "PStr ''PLACEHOLDER''"] p1 s m
  have c3: "snd (execute_plan always_failing [contact_step, slots_step, preferences_step] ''p'' new_agent []) =
        (\<lparr>pending_action = Some ''get_free_slots'',
          pending_action_contact_id = Some (PStr ''PLACEHOLDER'')\<rparr>,
         [contact_step, slots_step])"
    by (simp add: new_agent_def)
  from t [where plan = "[contact_step, preferences_step]"] p2
  have c2: "execute_plan always_failing [contact_step, preferences_step] ''p'' new_agent [] =
        (Inr [(''contacts_find_contact'', [(''success'', PBool False)]),
              (''preferences_get_meeting_preferences'', [(''success'', PBool False)])],
         new_agent, [contact_step, preferences_step])"
    by (simp add: always_failing_def contact_step_def preferences_step_def)
  from p1 s m a n c3 c2 show ?thesis by simp
qed

text \<open>
  Claim C4, as the code has it. The results mapping of a run that returns has at
  most as many entries as the plan has steps. The result of the step that suspends
  the run is stored before the run stops: after a suspension the mapping holds an
  entry under that step's key and has at most one entry per executed step, so it
  is strictly smaller than the plan whenever a step follows the suspending one.
\<close>

theorem execute_plan_results_bound:
  "(fst (execute_plan ex plan prompt ag calls) = Inr results \<longrightarrow> length results \<le> length plan)
   \<and> (passes ex calls pre \<and> suspending ex (calls @ pre) step
        \<and> map_of (params step) ''other_user_id'' = Some contact_id \<longrightarrow>
        (\<exists>suspended.
           fst (execute_plan ex (pre @ step # post) prompt ag calls) = Inr suspended
           \<and> map_of suspended (api step @ ''_'' @ action step) \<noteq> None
           \<and> length suspended \<le> Suc (length pre)
           \<and> (post \<noteq> [] \<longrightarrow> length suspended < length (pre @ step # post))))"
proof (intro conjI impI)
  assume "fst (execute_plan ex plan prompt ag calls) = Inr results"
  then have "length results \<le> length ([] :: results) + length plan"
    unfolding execute_plan_def by (rule run_steps_results_bound)
  then show "length results \<le> length plan" by simp
next
  assume h: "passes ex calls pre \<and> suspending ex (calls @ pre) step
      \<and> map_of (params step) ''other_user_id'' = Some contact_id"
  then have p: "passes ex calls pre" and s: "suspending ex (calls @ pre) step"
    and m: "map_of (params step) ''other_user_id'' = Some contact_id"
    by blast+
  from s obtain result where r: "ex (calls @ pre) step = Inr result"
    by (auto simp: suspending_def split: sum.splits)
  let ?before = "collect ex pre [] calls"
  let ?key = "api step @ ''_'' @ action step"
  let ?suspended = "AList.update ?key result ?before"
  have "run_steps ex (pre @ step # post) [] ag calls =
      run_steps ex (step # post) ?before ag (calls @ pre)"
    by (rule run_steps_passes [OF p])
  also have "\<dots> = (Inr (collect ex [step] ?before (calls @ pre)),
      ag\<lparr>pending_action := Some ''get_free_slots'',
          pending_action_contact_id := Some contact_id\<rparr>, (calls @ pre) @ [step])"
    by (rule run_steps_suspending [OF s m])
  also have "collect ex [step] ?before (calls @ pre) = ?suspended"
    using r by simp
  finally have run: "fst (execute_plan ex (pre @ step # post) prompt ag calls) = Inr ?suspended"
    by (simp add: execute_plan_def del: AList.update.simps)
  have key: "map_of ?suspended ?key \<noteq> None"
    by (simp add: update_conv' del: AList.update.simps)
  have "length ?before \<le> length ([] :: results) + length pre"
    by (rule length_collect)
  moreover have "length ?suspended \<le> Suc (length ?before)"
    by (rule length_update_le)
  ultimately have len: "length ?suspended \<le> Suc (length pre)"
    by simp
  then have "post \<noteq> [] \<longrightarrow> length ?suspended < length (pre @ step # post)"
    by (cases post) simp_all
  with run key len
  show "\<exists>suspended.
      fst (execute_plan ex (pre @ step # post) prompt ag calls) = Inr suspended
      \<and> map_of suspended (api step @ ''_'' @ action step) \<noteq> None
      \<and> length suspended \<le> Suc (length pre)
      \<and> (post \<noteq> [] \<longrightarrow> length suspended < length (pre @ step # post))"
    by blast
qed

theorem execute_plan_results_bound_witness:
  "fst (execute_plan contact_found [contact_step, slots_step] ''p'' new_agent []) =
     Inr [(''contacts_find_contact'',
           [(''success'', PBool True), (''contact_id'', PStr ''c42''),
            (''name'', PStr ''Chinmay Sir''), (''email'', PStr ''chinmay@example.org'')]),
          (''calendar_get_free_slots'',
           [(''success'', PBool False), (''error'', PStr ''Could not find contact email'')])]
   \<and> passes contact_found [] [contact_step]
   \<and> suspending contact_found [contact_step] slots_step
   \<and> map_of (params slots_step) ''other_user_id'' = Some (PStr ''PLACEHOLDER'')
   \<and> [preferences_step] \<noteq> []
   \<and> (\<exists>suspended.
         fst (execute_plan contact_found [contact_step, slots_step, preferences_step] ''p'' new_agent [])
           = Inr suspended
         \<and> length suspended < length [contact_step, slots_step, preferences_step])"
proof -
  have e: "fst (execute_plan contact_found [contact_step, slots_step] ''p'' new_agent []) =
     Inr [(''contacts_find_contact'',
           [(''success'', PBool True), (''contact_id'', PStr ''c42''),
            (''name'', PStr ''Chinmay Sir''), (''email'', PStr ''chinmay@example.org'')]),
          (''calendar_get_free_slots'',
           [(''success'', PBool False), (''error'', PStr ''Could not find contact email'')])]"
    by (simp add: execute_plan_def contact_found_def contact_step_def slots_step_def dict_get_def)
  have p: "passes contact_found [] [contact_step]"
    by (simp add: contact_found_def contact_step_def suspending_def)
  have s: "suspending contact_found ([] @ [contact_step]) slots_step"
    by (simp add: contact_found_def slots_step_def suspending_def dict_get_def)
  have m: "map_of (params slots_step) ''other_user_id'' = Some (PStr ''PLACEHOLDER'')"
    by (simp add: slots_step_def)
  note t = execute_plan_results_bound
    [where ex = contact_found and calls = "[]" and ag = new_agent and prompt = "''p''"]
  from t [where plan = "[contact_step, slots_step]"] e
  have "length [(''contacts_find_contact'',
           [(''success'', PBool True), (''contact_id'', PStr ''c42''),
            (''name'', PStr ''Chinmay Sir''), (''email'', PStr ''chinmay@example.org'')]),
          (''calendar_get_free_slots'',
           [(''success'', PBool False), (''error'', PStr ''Could not find contact email'')])]
        \<le> length [contact_step, slots_step]"
    by blast
  from t [where pre = "[contact_step]" and step = slots_step and post = "[preferences_step]"
            and contact_id = "PStr ''PLACEHOLDER''"] p s m
  obtain suspended where
    "fst (execute_plan contact_found ([contact_step] @ slots_step # [preferences_step]) ''p'' new_agent [])
       = Inr suspended"
    and "length suspended < length ([contact_step] @ slots_step # [preferences_step])"
    by blast
  then have "\<exists>suspended.
         fst (execute_plan contact_found [contact_step, slots_step, preferences_step] ''p'' new_agent [])
           = Inr suspended
         \<and> length suspended < length [contact_step, slots_step, preferences_step]"
    by auto
  with e p s m show ?thesis by simp
qed

text \<open>
  The claim as the specification states it fails: a failing \<open>get_free_slots\<close> as
  the last step of a two-step plan suspends the run with two results stored.
\<close>

theorem suspended_run_keeps_every_result_counterexample:
  "pending_action (fst (snd (execute_plan contact_found [contact_step, slots_step] ''p'' new_agent [])))
     = Some ''get_free_slots''
   \<and> fst (execute_plan contact_found [contact_step, slots_step] ''p'' new_agent []) =
       Inr [(''contacts_find_contact'',
             [(''success'', PBool True), (''contact_id'', PStr ''c42''),
              (''name'', PStr ''Chinmay Sir''), (''email'', PStr ''chinmay@example.org'')]),
            (''calendar_get_free_slots'',
             [(''success'', PBool False), (''error'', PStr ''Could not find contact email'')])]
   \<and> \<not> length [(''contacts_find_contact'',
             [(''success'', PBool True), (''contact_id'', PStr ''c42''),
              (''name'', PStr ''Chinmay Sir''), (''email'', PStr ''chinmay@example.org'')]),
            (''calendar_get_free_slots'',
             [(''success'', PBool False), (''error'', PStr ''Could not find contact email'')])]
         < length [contact_step, slots_step]"
  by (simp add: execute_plan_def contact_found_def contact_step_def slots_step_def dict_get_def)

text \<open>
  Claim C5, as the code has it. The Plan Runner hands every step to the executor
  exactly as the plan holds it: once the steps before a step have been answered,
  the executor's next call is that step with its own params, whatever the earlier
  results contain. No parameter is bound from the result of \<open>find_contact\<close>, so a
  \<open>get_free_slots\<close> step built with the placeholder is executed with the
  placeholder.
\<close>

theorem execute_plan_passes_params_unchanged:
  "passes ex calls pre \<Longrightarrow>
   \<exists>k\<le>length post.
     snd (snd (execute_plan ex (pre @ step # post) prompt ag calls)) = calls @ pre @ step # take k post"
proof -
  assume p: "passes ex calls pre"
  have "run_steps ex (pre @ step # post) [] ag calls =
      run_steps ex (step # post) (collect ex pre [] calls) ag (calls @ pre)"
    by (rule run_steps_passes [OF p])
  moreover from run_steps_calls_first [of post ex step "collect ex pre [] calls" ag "calls @ pre"]
  obtain k where "k \<le> length post"
    and "snd (snd (run_steps ex (step # post) (collect ex pre [] calls) ag (calls @ pre)))
         = (calls @ pre) @ step # take k post"
    by blast
  ultimately show ?thesis
    unfolding execute_plan_def by (intro exI [of _ k]) simp
qed

theorem execute_plan_passes_params_unchanged_witness:
  "passes always_failing [] [contact_step, preferences_step]
   \<and> snd (snd (execute_plan always_failing [contact_step, preferences_step, slots_step] ''p''
                 new_agent []))
       = [contact_step, preferences_step, slots_step]
   \<and> map_of (params slots_step) ''other_user_id'' = Some (PStr ''PLACEHOLDER'')"
proof -
  have p: "passes always_failing [] [contact_step, preferences_step]"
    by (simp add: always_failing_def contact_step_def preferences_step_def suspending_def)
  have m: "map_of (params slots_step) ''other_user_id'' = Some (PStr ''PLACEHOLDER'')"
    by (simp add: slots_step_def)
  from execute_plan_passes_params_unchanged [OF p, of "[]" slots_step "''p''" new_agent]
  have "snd (snd (execute_plan always_failing [contact_step, preferences_step, slots_step] ''p''
                    new_agent []))
       = [contact_step, preferences_step, slots_step]"
    by simp
  with p m show ?thesis by simp
qed

text \<open>
  The claim as the specification states it fails: \<open>find_contact\<close> returns the
  contact id \<open>c42\<close>, and the \<open>get_free_slots\<close> step that follows is executed, and
  recorded as pending, with the placeholder.
\<close>

theorem placeholder_reaches_executor_counterexample:
  "dict_get (projr (contact_found [] contact_step)) ''contact_id'' = PStr ''c42''
   \<and> snd (snd (execute_plan contact_found [contact_step, slots_step] ''p'' new_agent []))
       = [contact_step, slots_step]
   \<and> map_of (params slots_step) ''other_user_id'' = Some (PStr ''PLACEHOLDER'')
   \<and> pending_action_contact_id
         (fst (snd (execute_plan contact_found [contact_step, slots_step] ''p'' new_agent [])))
       = Some (PStr ''PLACEHOLDER'')"
  by (simp add: execute_plan_def contact_found_def contact_step_def slots_step_def dict_get_def)

section \<open>Properties of the Plan Builder and of the entry point\<close>

text \<open>
  The Plan Builder of google_calendar_integration_openai.py follows the three
  rules: a \<open>contacts.find_contact\<close> step when the intent has a contact name, then
  a \<open>preferences.get_meeting_preferences\<close> step with \<open>ask_user\<close> true when
  \<open>ask_preferences\<close> is true, then exactly one \<open>calendar.get_free_slots\<close> step.
\<close>

lemma integration_create_execution_plan_rules:
  "integration_create_execution_plan intent user_id =
     (case map_of intent ''contact_name'' of
        None \<Rightarrow> []
      | Some contact_name \<Rightarrow>
          [\<lparr>api = ''contacts'', action = ''find_contact'', params = [(''name'', contact_name)]\<rparr>])
     @ (if truthy (dict_get intent ''ask_preferences'')
        then [\<lparr>api = ''preferences'', action = ''get_meeting_preferences'',
               params = [(''user_id'', PStr user_id), (''ask_user'', PBool True)]\<rparr>]
        else [])
     @ [\<lparr>api = ''calendar'', action = ''get_free_slots'',
         params = [(''user_id'', PStr user_id), (''other_user_id'', PStr ''PLACEHOLDER''),
                   (''date'', PStr ''PLACEHOLDER'')]\<rparr>]"
  by (simp add: integration_create_execution_plan_def dict_get_def Let_def split: option.splits)

lemma integration_create_execution_plan_last:
  "integration_create_execution_plan intent user_id \<noteq> []
   \<and> action (last (integration_create_execution_plan intent user_id)) = ''get_free_slots''
   \<and> length (filter (\<lambda>step. action step = ''get_free_slots'')
               (integration_create_execution_plan intent user_id)) = 1"
  by (simp add: integration_create_execution_plan_rules split: option.splits)

text \<open>
  Claim C9, evaluated on the code. The Plan Builder of meeting_booking_agent.py
  returns no step list: for every intent and user id, building the
  \<open>get_free_slots\<close> step raises AttributeError, because \<open>datetime\<close> names the
  class \<open>datetime.datetime\<close> in that module.
\<close>

theorem create_execution_plan_raises:
  "create_execution_plan intent user_id =
     Inl (AttributeError (squote ''method_descriptor'' @ '' object has no attribute '' @ squote ''today''))"
  by (simp add: create_execution_plan_def today_isoformat_def Let_def)

theorem create_execution_plan_raises_witness:
  "create_execution_plan fixed_intent ''primary'' =
     Inl (AttributeError (squote ''method_descriptor'' @ '' object has no attribute '' @ squote ''today''))
   \<and> integration_create_execution_plan fixed_intent ''primary'' =
       [\<lparr>api = ''contacts'', action = ''find_contact'', params = [(''name'', PStr ''Chinmay Sir'')]\<rparr>,
        \<lparr>api = ''calendar'', action = ''get_free_slots'',
         params = [(''user_id'', PStr ''primary''), (''other_user_id'', PStr ''PLACEHOLDER''),
                   (''date'', PStr ''PLACEHOLDER'')]\<rparr>]"
  using create_execution_plan_raises [of fixed_intent "''primary''"]
  by (simp add: integration_create_execution_plan_def fixed_intent_def Let_def)

text \<open>
  On the code as written the entry point returns no response at all: when the
  language model client answers, the AttributeError of the Plan Builder leaves
  \<open>process_user_prompt\<close>.
\<close>

lemma process_user_prompt_raises:
  "process_user_prompt complete prompt user_id =
     (case complete prompt of
        Inl e \<Rightarrow> Inl e
      | Inr message_content \<Rightarrow>
          Inl (AttributeError (squote ''method_descriptor'' @ '' object has no attribute ''
                               @ squote ''today'')))"
  by (simp add: process_user_prompt_def parse_intent_with_llm_def create_execution_plan_def
      today_isoformat_def Let_def split: sum.splits)

lemma generate_response_status:
  "status (generate_response prompt results) = ''success''
   \<or> status (generate_response prompt results) = ''error''"
  by (simp add: generate_response_def Let_def split: option.splits)

text \<open>
  \<open>process_user_prompt\<close> is its body over the methods of meeting_booking_agent.py.
\<close>

lemma process_user_prompt_is_body:
  "process_user_prompt complete prompt user_id =
     process_user_prompt_body (parse_intent_with_llm complete) create_execution_plan
       execute_plan_as_called prompt user_id"
  by (simp add: process_user_prompt_def process_user_prompt_body_def execute_plan_as_called_def
      clarification_def split: sum.splits option.splits)

text \<open>
  Whatever plan a Plan Builder returns, the call of the Plan Runner with one
  argument raises TypeError, and the entry point with it.
\<close>

lemma process_user_prompt_body_call_raises:
  "parse_intent prompt = Inr intent \<Longrightarrow> map_of intent ''action'' = Some (PStr ''book_meeting'') \<Longrightarrow>
   create_plan intent user_id = Inr plan \<Longrightarrow>
   process_user_prompt_body parse_intent create_plan execute_plan_as_called prompt user_id =
     Inl (TypeError (''MeetingBookingMCPAgent._execute_plan() missing 1 required positional argument: ''
                     @ squote ''prompt''))"
  by (simp add: process_user_prompt_body_def execute_plan_as_called_def)

lemma process_user_prompt_body_status:
  "process_user_prompt_body parse_intent create_plan run_plan prompt user_id = Inr reply \<Longrightarrow>
   status reply = ''success'' \<or> status reply = ''error''"
  using generate_response_status [of prompt]
  by (auto simp: process_user_prompt_body_def clarification_def
      split: sum.splits option.splits if_splits)

text \<open>
  Claim C3, as the code has it. \<open>process_user_prompt\<close> is the body below, run
  over the intent parser, the Plan Builder and the Plan Runner call of its file,
  and that body catches nothing. An exception raised by the intent parser (the
  language model client), the KeyError of an intent without \<open>action\<close>, an
  exception raised by the Plan Builder and an exception raised by the Plan Runner
  are each propagated to the caller. When none is raised the body returns a
  record of a message and a status that is \<open>success\<close> or \<open>error\<close>: the response
  of the Response Synthesizer to the results of the run when the action is
  \<open>book_meeting\<close>, the clarification message with status \<open>error\<close> otherwise.
\<close>

theorem process_user_prompt_propagates:
  "process_user_prompt complete prompt user_id =
     process_user_prompt_body (parse_intent_with_llm complete) create_execution_plan
       execute_plan_as_called prompt user_id
   \<and> (complete prompt = Inl e \<longrightarrow> process_user_prompt complete prompt user_id = Inl e)
   \<and> (parse_intent prompt = Inl e \<longrightarrow>
        process_user_prompt_body parse_intent create_plan run_plan prompt user_id = Inl e)
   \<and> (parse_intent prompt = Inr intent \<and> map_of intent ''action'' = None \<longrightarrow>
        process_user_prompt_body parse_intent create_plan run_plan prompt user_id =
          Inl (key_error ''action''))
   \<and> (parse_intent prompt = Inr intent \<and> map_of intent ''action'' = Some (PStr ''book_meeting'')
        \<and> create_plan intent user_id = Inl e \<longrightarrow>
        process_user_prompt_body parse_intent create_plan run_plan prompt user_id = Inl e)
   \<and> (parse_intent prompt = Inr intent \<and> map_of intent ''action'' = Some (PStr ''book_meeting'')
        \<and> create_plan intent user_id = Inr plan \<and> run_plan plan = Inl e \<longrightarrow>
        process_user_prompt_body parse_intent create_plan run_plan prompt user_id = Inl e)
   \<and> (parse_intent prompt = Inr intent \<and> map_of intent ''action'' = Some (PStr ''book_meeting'')
        \<and> create_plan intent user_id = Inr plan \<and> run_plan plan = Inr results \<longrightarrow>
        process_user_prompt_body parse_intent create_plan run_plan prompt user_id =
          Inr (generate_response prompt results))
   \<and> (parse_intent prompt = Inr intent \<and> map_of intent ''action'' = Some act
        \<and> act \<noteq> PStr ''book_meeting'' \<longrightarrow>
        process_user_prompt_body parse_intent create_plan run_plan prompt user_id =
          Inr \<lparr>message = ''I'' @ [CHR 0x27] @ ''m not sure what you want to do. Can you clarify?'',
               status = ''error''\<rparr>)
   \<and> (process_user_prompt_body parse_intent create_plan run_plan prompt user_id = Inr reply \<longrightarrow>
        status reply = ''success'' \<or> status reply = ''error'')"
proof (intro conjI impI; (elim conjE)?)
  show "process_user_prompt complete prompt user_id =
     process_user_prompt_body (parse_intent_with_llm complete) create_execution_plan
       execute_plan_as_called prompt user_id"
    by (rule process_user_prompt_is_body)
next
  assume "complete prompt = Inl e"
  then show "process_user_prompt complete prompt user_id = Inl e"
    by (simp add: process_user_prompt_def parse_intent_with_llm_def)
next
  assume "parse_intent prompt = Inl e"
  then show "process_user_prompt_body parse_intent create_plan run_plan prompt user_id = Inl e"
    by (simp add: process_user_prompt_body_def)
next
  assume "parse_intent prompt = Inr intent" "map_of intent ''action'' = None"
  then show "process_user_prompt_body parse_intent create_plan run_plan prompt user_id =
      Inl (key_error ''action'')"
    by (simp add: process_user_prompt_body_def)
next
  assume "parse_intent prompt = Inr intent" "map_of intent ''action'' = Some (PStr ''book_meeting'')"
    "create_plan intent user_id = Inl e"
  then show "process_user_prompt_body parse_intent create_plan run_plan prompt user_id = Inl e"
    by (simp add: process_user_prompt_body_def)
next
  assume "parse_intent prompt = Inr intent" "map_of intent ''action'' = Some (PStr ''book_meeting'')"
    "create_plan intent user_id = Inr plan" "run_plan plan = Inl e"
  then show "process_user_prompt_body parse_intent create_plan run_plan prompt user_id = Inl e"
    by (simp add: process_user_prompt_body_def)
next
  assume "parse_intent prompt = Inr intent" "map_of intent ''action'' = Some (PStr ''book_meeting'')"
    "create_plan intent user_id = Inr plan" "run_plan plan = Inr results"
  then show "process_user_prompt_body parse_intent create_plan run_plan prompt user_id =
      Inr (generate_response prompt results)"
    by (simp add: process_user_prompt_body_def)
next
  assume "parse_intent prompt = Inr intent" "map_of intent ''action'' = Some act"
    "act \<noteq> PStr ''book_meeting''"
  then show "process_user_prompt_body parse_intent create_plan run_plan prompt user_id =
      Inr \<lparr>message = ''I'' @ [CHR 0x27] @ ''m not sure what you want to do. Can you clarify?'',
           status = ''error''\<rparr>"
    by (simp add: process_user_prompt_body_def clarification_def)
next
  assume "process_user_prompt_body parse_intent create_plan run_plan prompt user_id = Inr reply"
  then show "status reply = ''success'' \<or> status reply = ''error''"
    by (rule process_user_prompt_body_status)
qed

theorem process_user_prompt_propagates_witness:
  "unreachable ''Book a meeting with Chinmay Sir'' = Inl (ServiceError ''Connection error.'')
   \<and> process_user_prompt unreachable ''Book a meeting with Chinmay Sir'' ''primary'' =
       Inl (ServiceError ''Connection error.'')
   \<and> process_user_prompt_body parser_without_action create_execution_plan execute_plan_as_called
         ''Book a meeting with Chinmay Sir'' ''primary'' = Inl (key_error ''action'')
   \<and> parse_intent_with_llm answering ''Book a meeting with Chinmay Sir'' = Inr fixed_intent
   \<and> map_of fixed_intent ''action'' = Some (PStr ''book_meeting'')
   \<and> process_user_prompt_body (parse_intent_with_llm answering) create_execution_plan
         execute_plan_as_called ''Book a meeting with Chinmay Sir'' ''primary'' =
       Inl (AttributeError (squote ''method_descriptor'' @ '' object has no attribute ''
                            @ squote ''today''))
   \<and> returning_builder fixed_intent ''primary'' =
       Inr (integration_create_execution_plan fixed_intent ''primary'')
   \<and> process_user_prompt_body (parse_intent_with_llm answering) returning_builder
         execute_plan_as_called ''Book a meeting with Chinmay Sir'' ''primary'' =
       Inl (TypeError (''MeetingBookingMCPAgent._execute_plan() missing 1 required positional argument: ''
                       @ squote ''prompt''))
   \<and> run_with contact_found ''Book a meeting with Chinmay Sir''
         (integration_create_execution_plan fixed_intent ''primary'') =
       Inr [(''contacts_find_contact'',
             [(''success'', PBool True), (''contact_id'', PStr ''c42''),
              (''name'', PStr ''Chinmay Sir''), (''email'', PStr ''chinmay@example.org'')]),
            (''calendar_get_free_slots'',
             [(''success'', PBool False), (''error'', PStr ''Could not find contact email'')])]
   \<and> process_user_prompt_body (parse_intent_with_llm answering) returning_builder
         (run_with contact_found ''Book a meeting with Chinmay Sir'')
         ''Book a meeting with Chinmay Sir'' ''primary'' =
       Inr \<lparr>message = ''Failed to find available slots. Please specify a date.'',
            status = ''error''\<rparr>
   \<and> process_user_prompt_body parser_of_small_talk create_execution_plan execute_plan_as_called
         ''Hello'' ''primary'' =
       Inr \<lparr>message = ''I'' @ [CHR 0x27] @ ''m not sure what you want to do. Can you clarify?'',
            status = ''error''\<rparr>"
proof -
  let ?p = "''Book a meeting with Chinmay Sir''"
  let ?plan = "integration_create_execution_plan fixed_intent ''primary''"
  let ?results = "[(''contacts_find_contact'',
             [(''success'', PBool True), (''contact_id'', PStr ''c42''),
              (''name'', PStr ''Chinmay Sir''), (''email'', PStr ''chinmay@example.org'')]),
            (''calendar_get_free_slots'',
             [(''success'', PBool False), (''error'', PStr ''Could not find contact email'')])]"
  note t = process_user_prompt_propagates
  have down: "unreachable ?p = Inl (ServiceError ''Connection error.'')"
    by (simp add: unreachable_def)
  have r2: "process_user_prompt unreachable ?p ''primary'' = Inl (ServiceError ''Connection error.'')"
    by (rule t [where complete = unreachable and prompt = "''Book a meeting with Chinmay Sir''",
          THEN conjunct2, THEN conjunct1, THEN mp, OF down])
  have h4: "parser_without_action ?p = Inr [(''contact_name'', PStr ''Chinmay Sir'')]
      \<and> map_of [(''contact_name'', PStr ''Chinmay Sir'')] ''action'' = None"
    by (simp add: parser_without_action_def)
  have r4: "process_user_prompt_body parser_without_action create_execution_plan execute_plan_as_called
         ?p ''primary'' = Inl (key_error ''action'')"
    by (rule t [where parse_intent = parser_without_action and create_plan = create_execution_plan and run_plan = execute_plan_as_called
          and prompt = "''Book a meeting with Chinmay Sir''" and user_id = "''primary''",
          THEN conjunct2, THEN conjunct2, THEN conjunct2, THEN conjunct1, THEN mp, OF h4])
  have parsed: "parse_intent_with_llm answering ?p = Inr fixed_intent"
    by (simp add: parse_intent_with_llm_def answering_def fixed_intent_def)
  have act: "map_of fixed_intent ''action'' = Some (PStr ''book_meeting'')"
    by (simp add: fixed_intent_def)
  have slip: "create_execution_plan fixed_intent ''primary'' =
      Inl (AttributeError (squote ''method_descriptor'' @ '' object has no attribute ''
                           @ squote ''today''))"
    by (simp add: create_execution_plan_def today_isoformat_def Let_def)
  have h5: "parse_intent_with_llm answering ?p = Inr fixed_intent
      \<and> map_of fixed_intent ''action'' = Some (PStr ''book_meeting'')
      \<and> create_execution_plan fixed_intent ''primary'' =
          Inl (AttributeError (squote ''method_descriptor'' @ '' object has no attribute ''
                               @ squote ''today''))"
    using parsed act slip by (intro conjI)
  have r5: "process_user_prompt_body (parse_intent_with_llm answering) create_execution_plan
         execute_plan_as_called ?p ''primary'' =
       Inl (AttributeError (squote ''method_descriptor'' @ '' object has no attribute ''
                            @ squote ''today''))"
    by (rule t [where parse_intent = "parse_intent_with_llm answering" and create_plan = create_execution_plan and run_plan = execute_plan_as_called
          and prompt = "''Book a meeting with Chinmay Sir''" and user_id = "''primary''",
          THEN conjunct2, THEN conjunct2, THEN conjunct2, THEN conjunct2, THEN conjunct1,
          THEN mp, OF h5])
  have built: "returning_builder fixed_intent ''primary'' = Inr ?plan"
    by (simp add: returning_builder_def)
  have called: "execute_plan_as_called ?plan =
      Inl (TypeError (''MeetingBookingMCPAgent._execute_plan() missing 1 required positional argument: ''
                      @ squote ''prompt''))"
    by (simp add: execute_plan_as_called_def)
  have h6: "parse_intent_with_llm answering ?p = Inr fixed_intent
      \<and> map_of fixed_intent ''action'' = Some (PStr ''book_meeting'')
      \<and> returning_builder fixed_intent ''primary'' = Inr ?plan
      \<and> execute_plan_as_called ?plan =
          Inl (TypeError (''MeetingBookingMCPAgent._execute_plan() missing 1 required positional argument: ''
                          @ squote ''prompt''))"
    using parsed act built called by (intro conjI)
  have r6: "process_user_prompt_body (parse_intent_with_llm answering) returning_builder
         execute_plan_as_called ?p ''primary'' =
       Inl (TypeError (''MeetingBookingMCPAgent._execute_plan() missing 1 required positional argument: ''
                       @ squote ''prompt''))"
    by (rule t [where parse_intent = "parse_intent_with_llm answering" and create_plan = returning_builder and run_plan = execute_plan_as_called
          and prompt = "''Book a meeting with Chinmay Sir''" and user_id = "''primary''",
          THEN conjunct2, THEN conjunct2, THEN conjunct2, THEN conjunct2, THEN conjunct2,
          THEN conjunct1, THEN mp, OF h6])
  have ran: "run_with contact_found ?p ?plan = Inr ?results"
    by (simp add: run_with_def execute_plan_def integration_create_execution_plan_def
        fixed_intent_def contact_found_def dict_get_def Let_def)
  have synthesized: "generate_response ?p ?results =
      \<lparr>message = ''Failed to find available slots. Please specify a date.'', status = ''error''\<rparr>"
    by (simp add: generate_response_def dict_get_def)
  have h7: "parse_intent_with_llm answering ?p = Inr fixed_intent
      \<and> map_of fixed_intent ''action'' = Some (PStr ''book_meeting'')
      \<and> returning_builder fixed_intent ''primary'' = Inr ?plan
      \<and> run_with contact_found ?p ?plan = Inr ?results"
    using parsed act built ran by (intro conjI)
  have "process_user_prompt_body (parse_intent_with_llm answering) returning_builder
         (run_with contact_found ?p) ?p ''primary'' = Inr (generate_response ?p ?results)"
    by (rule t [where parse_intent = "parse_intent_with_llm answering" and create_plan = returning_builder and run_plan = "run_with contact_found ''Book a meeting with Chinmay Sir''"
          and prompt = "''Book a meeting with Chinmay Sir''" and user_id = "''primary''",
          THEN conjunct2, THEN conjunct2, THEN conjunct2, THEN conjunct2, THEN conjunct2,
          THEN conjunct2, THEN conjunct1, THEN mp, OF h7])
  then have r7: "process_user_prompt_body (parse_intent_with_llm answering) returning_builder
         (run_with contact_found ?p) ?p ''primary'' =
       Inr \<lparr>message = ''Failed to find available slots. Please specify a date.'',
            status = ''error''\<rparr>"
    unfolding synthesized .
  have h8: "parser_of_small_talk ''Hello'' = Inr [(''action'', PStr ''unknown'')]
      \<and> map_of [(''action'', PStr ''unknown'')] ''action'' = Some (PStr ''unknown'')
      \<and> PStr ''unknown'' \<noteq> PStr ''book_meeting''"
    by (simp add: parser_of_small_talk_def)
  have r8: "process_user_prompt_body parser_of_small_talk create_execution_plan execute_plan_as_called
         ''Hello'' ''primary'' =
       Inr \<lparr>message = ''I'' @ [CHR 0x27] @ ''m not sure what you want to do. Can you clarify?'',
            status = ''error''\<rparr>"
    by (rule t [where parse_intent = parser_of_small_talk and create_plan = create_execution_plan and run_plan = execute_plan_as_called
          and prompt = "''Hello''" and user_id = "''primary''",
          THEN conjunct2, THEN conjunct2, THEN conjunct2, THEN conjunct2, THEN conjunct2,
          THEN conjunct2, THEN conjunct2, THEN conjunct1, THEN mp, OF h8])
  have "status \<lparr>message = ''Failed to find available slots. Please specify a date.'',
            status = ''error''\<rparr> = ''success''
      \<or> status \<lparr>message = ''Failed to find available slots. Please specify a date.'',
            status = ''error''\<rparr> = ''error''"
    by (rule t [where parse_intent = "parse_intent_with_llm answering" and create_plan = returning_builder and run_plan = "run_with contact_found ''Book a meeting with Chinmay Sir''"
          and prompt = "''Book a meeting with Chinmay Sir''" and user_id = "''primary''",
          THEN conjunct2, THEN conjunct2, THEN conjunct2, THEN conjunct2, THEN conjunct2,
          THEN conjunct2, THEN conjunct2, THEN conjunct2, THEN mp, OF r7])
  show ?thesis
    by (intro conjI down r2 r4 parsed act r5 built r6 ran r7 r8)
qed

text \<open>
  The claim as the specification states it fails: the repository's own example
  call, with the language model unreachable, ends in the client's exception and
  not in a response.
\<close>

theorem process_user_prompt_raises_counterexample:
  "process_user_prompt unreachable ''Book a meeting with Chinmay Sir'' ''primary'' =
     Inl (ServiceError ''Connection error.'')"
  by (simp add: process_user_prompt_def parse_intent_with_llm_def unreachable_def)

section \<open>Properties of the Interval Scheduler\<close>

lemma minutes_30_pos: "0 < minutes 30"
  by (simp add: minutes_def)

lemma is_free_sound:
  "is_free current_time slot_end busy_periods = Inr True \<Longrightarrow>
   (busy_start, busy_end) \<in> set busy_periods \<Longrightarrow>
   slot_end \<le> instant busy_start \<or> instant busy_end \<le> current_time"
proof (induction busy_periods)
  case Nil
  then show ?case by simp
next
  case (Cons b rest)
  obtain bs be where b: "b = (bs, be)" by (cases b)
  show ?case
  proof (cases "(busy_start, busy_end) = b")
    case True
    with b have eq: "bs = busy_start" "be = busy_end" by simp_all
    from Cons.prems(1) show ?thesis
      unfolding b eq
      by (cases busy_start; cases busy_end) (auto split: if_splits)
  next
    case False
    with Cons.prems(2) have mem: "(busy_start, busy_end) \<in> set rest" by simp
    from Cons.prems(1) have "is_free current_time slot_end rest = Inr True"
      unfolding b by (auto split: sum.splits if_splits)
    from Cons.IH [OF this mem] show ?thesis .
  qed
qed

lemma is_free_naive:
  "\<forall>(busy_start, busy_end) \<in> set busy_periods. is_naive busy_start \<and> is_naive busy_end \<Longrightarrow>
   is_free current_time slot_end busy_periods =
     Inr (\<forall>(busy_start, busy_end) \<in> set busy_periods.
            slot_end \<le> instant busy_start \<or> instant busy_end \<le> current_time)"
proof (induction busy_periods)
  case Nil
  then show ?case by simp
next
  case (Cons b rest)
  obtain bs be where b: "b = (bs, be)" by (cases b)
  from Cons.prems b obtain s e where n: "bs = Naive s" "be = Naive e"
    by (cases bs; cases be) auto
  from Cons.prems have "\<forall>(busy_start, busy_end) \<in> set rest. is_naive busy_start \<and> is_naive busy_end"
    by simp
  from Cons.IH [OF this] show ?case
    unfolding b n by auto
qed

lemma free_slots_loop_sound:
  "free_slots_loop duration time_max busy_periods current_time free_slots = Inr slots \<Longrightarrow>
   time_min \<le> current_time \<Longrightarrow>
   \<forall>slot \<in> set free_slots. slot_ok time_min time_max duration busy_periods slot \<Longrightarrow>
   \<forall>slot \<in> set slots. slot_ok time_min time_max duration busy_periods slot"
proof (induction duration time_max busy_periods current_time free_slots rule: free_slots_loop.induct)
  case (1 duration time_max busy_periods current_time free_slots)
  show ?case
  proof (cases "current_time + duration \<le> time_max")
    case False
    with "1.prems" show ?thesis by simp
  next
    case True
    from True "1.prems"(1) obtain free where
      f: "is_free current_time (current_time + duration) busy_periods = Inr free"
      by (cases "is_free current_time (current_time + duration) busy_periods") (simp_all add: Let_def)
    let ?next = "if free then free_slots @ [(current_time, current_time + duration)] else free_slots"
    from True f "1.prems"(1)
    have run: "free_slots_loop duration time_max busy_periods (current_time + minutes 30) ?next = Inr slots"
      by (simp add: Let_def)
    have le: "time_min \<le> current_time + minutes 30"
      using "1.prems"(2) minutes_30_pos by simp
    have inv: "\<forall>slot \<in> set ?next. slot_ok time_min time_max duration busy_periods slot"
    proof (cases free)
      case False
      with "1.prems"(3) show ?thesis by simp
    next
      case free: True
      from f free have ft: "is_free current_time (current_time + duration) busy_periods = Inr True"
        by simp
      have "slot_ok time_min time_max duration busy_periods (current_time, current_time + duration)"
        unfolding slot_ok_def
        using True "1.prems"(2) is_free_sound [OF ft] by auto
      with free "1.prems"(3) show ?thesis by simp
    qed
    from "1.IH" [OF True refl f run le inv] show ?thesis .
  qed
qed

lemma free_slots_loop_naive:
  "\<forall>(busy_start, busy_end) \<in> set busy_periods. is_naive busy_start \<and> is_naive busy_end \<Longrightarrow>
   \<exists>slots. free_slots_loop duration time_max busy_periods current_time free_slots = Inr slots"
proof (induction duration time_max busy_periods current_time free_slots rule: free_slots_loop.induct)
  case (1 duration time_max busy_periods current_time free_slots)
  show ?case
  proof (cases "current_time + duration \<le> time_max")
    case False
    then show ?thesis by simp
  next
    case True
    let ?free = "\<forall>(busy_start, busy_end) \<in> set busy_periods.
        current_time + duration \<le> instant busy_start \<or> instant busy_end \<le> current_time"
    have f: "is_free current_time (current_time + duration) busy_periods = Inr ?free"
      by (rule is_free_naive [OF "1.prems"])
    from "1.IH" [OF True refl f "1.prems"] True f show ?thesis
      by (simp add: Let_def)
  qed
qed

lemma free_slots_loop_no_busy:
  "free_slots_loop (minutes 30) time_max [] current_time free_slots =
     Inr (free_slots @
          map (\<lambda>k. (current_time + minutes 30 * int k, current_time + minutes 30 * int k + minutes 30))
            [0..<nat ((time_max - current_time) div minutes 30)])"
proof (induction "minutes 30" time_max "[] :: busy_period list" current_time free_slots
    rule: free_slots_loop.induct)
  case (1 time_max current_time free_slots)
  let ?g = "minutes 30"
  let ?n = "nat ((time_max - current_time) div ?g)"
  have g: "0 < ?g" by (rule minutes_30_pos)
  show ?case
  proof (cases "current_time + ?g \<le> time_max")
    case False
    then have "time_max - current_time < ?g" by simp
    then have "(time_max - current_time) div ?g \<le> 0"
      using g by (cases "0 \<le> time_max - current_time")
        (simp_all add: div_pos_pos_trivial div_neg_pos_less0 less_imp_le)
    then have "?n = 0" by simp
    with False show ?thesis by simp
  next
    case True
    let ?m = "nat ((time_max - (current_time + ?g)) div ?g)"
    have "(time_max - current_time) div ?g = (time_max - (current_time + ?g)) div ?g + 1"
    proof -
      have "time_max - current_time = (time_max - (current_time + ?g)) + ?g" by simp
      then show ?thesis using g by (metis div_add_self2 less_irrefl)
    qed
    moreover have "0 \<le> (time_max - (current_time + ?g)) div ?g"
      using True g by (simp add: pos_imp_zdiv_nonneg_iff)
    ultimately have n: "?n = Suc ?m" by simp
    have f: "is_free current_time (current_time + ?g) [] = Inr True" by simp
    from "1.hyps" [OF True refl f]
    have "free_slots_loop ?g time_max [] (current_time + ?g) (free_slots @ [(current_time, current_time + ?g)])
        = Inr ((free_slots @ [(current_time, current_time + ?g)]) @
            map (\<lambda>k. (current_time + ?g + ?g * int k, current_time + ?g + ?g * int k + ?g)) [0..<?m])"
      by simp
    moreover have "map (\<lambda>k. (current_time + ?g * int k, current_time + ?g * int k + ?g)) [0..<Suc ?m]
        = (current_time, current_time + ?g) #
          map (\<lambda>k. (current_time + ?g + ?g * int k, current_time + ?g + ?g * int k + ?g)) [0..<?m]"
      by (simp add: map_upt_Suc del: upt_Suc) (simp add: algebra_simps)
    ultimately show ?thesis
      using True n by (subst free_slots_loop.simps) (simp add: Let_def del: upt_Suc)
  qed
qed

text \<open>When every busy period is naive the scheduler raises nothing.\<close>

lemma find_free_slots_naive:
  "\<forall>(busy_start, busy_end) \<in> set busy_periods. is_naive busy_start \<and> is_naive busy_end \<Longrightarrow>
   \<exists>slots. find_free_slots time_min time_max duration busy_periods = Inr slots"
  unfolding find_free_slots_def by (rule free_slots_loop_naive)

text \<open>
  Claim C2. For every work window, slot duration and list of busy periods, every
  slot that the scheduler emits starts at or after the start of the window, ends
  at or before its end, and overlaps no busy period: for each busy period, the
  slot ends by the period's start or starts at or after the period's end.
\<close>

theorem find_free_slots_in_window_and_free:
  assumes "find_free_slots time_min time_max duration busy_periods = Inr slots"
    and "(slot_start, slot_end) \<in> set slots"
  shows "time_min \<le> slot_start \<and> slot_end \<le> time_max \<and> slot_end = slot_start + duration
    \<and> (\<forall>(busy_start, busy_end) \<in> set busy_periods.
          slot_end \<le> instant busy_start \<or> instant busy_end \<le> slot_start)"
proof -
  have "\<forall>slot \<in> set slots. slot_ok time_min time_max duration busy_periods slot"
    by (rule free_slots_loop_sound [OF assms(1) [unfolded find_free_slots_def]]) simp_all
  with assms(2) have "slot_ok time_min time_max duration busy_periods (slot_start, slot_end)"
    by blast
  then show ?thesis by (auto simp: slot_ok_def)
qed

theorem find_free_slots_in_window_and_free_witness:
  "find_free_slots 0 (minutes 90) (minutes 30) [(Naive 0, Naive (minutes 30))] =
     Inr [(minutes 30, minutes 60), (minutes 60, minutes 90)]
   \<and> (minutes 30, minutes 60) \<in> set [(minutes 30, minutes 60), (minutes 60, minutes 90)]
   \<and> 0 \<le> minutes 30 \<and> minutes 60 \<le> minutes 90 \<and> minutes 60 = minutes 30 + minutes 30
   \<and> (minutes 60 \<le> instant (Naive 0) \<or> instant (Naive (minutes 30)) \<le> minutes 30)"
proof -
  have run: "find_free_slots 0 (minutes 90) (minutes 30) [(Naive 0, Naive (minutes 30))] =
     Inr [(minutes 30, minutes 60), (minutes 60, minutes 90)]"
    by (simp add: find_free_slots_def minutes_def)
  have mem: "(minutes 30, minutes 60) \<in> set [(minutes 30, minutes 60), (minutes 60, minutes 90)]"
    by simp
  from find_free_slots_in_window_and_free [OF run mem] run mem show ?thesis
    by simp
qed

text \<open>
  Claim C8. With no busy period and the thirty-minute duration of the code, the
  scheduler emits one slot for every thirty-minute step of the work window, in
  chronological order, \<open>(time_max - time_min) div 30 minutes\<close> slots in all; for
  the window from 9:00 to 17:00 of any day these are 16 slots, the last one
  starting at 16:30.
\<close>

theorem find_free_slots_no_busy:
  "find_free_slots time_min time_max (minutes 30) [] =
     Inr (map (\<lambda>k. (time_min + minutes 30 * int k, time_min + minutes 30 * int k + minutes 30))
            [0..<nat ((time_max - time_min) div minutes 30)])
   \<and> (\<exists>slots. find_free_slots (combine base_date 9) (combine base_date 17) (minutes 30) [] = Inr slots
        \<and> length slots = 16
        \<and> sorted_wrt (<) (map fst slots)
        \<and> last slots = (combine base_date 16 + minutes 30, combine base_date 17))"
proof
  show general: "find_free_slots time_min time_max (minutes 30) [] =
     Inr (map (\<lambda>k. (time_min + minutes 30 * int k, time_min + minutes 30 * int k + minutes 30))
            [0..<nat ((time_max - time_min) div minutes 30)])"
    for time_min time_max
    unfolding find_free_slots_def
    using free_slots_loop_no_busy [of time_max time_min "[]"]
    by (simp del: free_slots_loop.simps)
  let ?start = "combine base_date 9"
  let ?slots = "map (\<lambda>k. (?start + minutes 30 * int k, ?start + minutes 30 * int k + minutes 30))
      [0..<nat ((combine base_date 17 - ?start) div minutes 30)]"
  have n: "nat ((combine base_date 17 - ?start) div minutes 30) = 16"
    by (simp add: combine_def minutes_def)
  have len: "length ?slots = 16"
    using n by simp
  have "?slots \<noteq> []"
    using len by auto
  then have "last ?slots = ?slots ! 15"
    using len by (simp add: last_conv_nth)
  also have "\<dots> = (combine base_date 16 + minutes 30, combine base_date 17)"
    unfolding n by (simp add: combine_def minutes_def del: upt_Suc)
  finally have lst: "last ?slots = (combine base_date 16 + minutes 30, combine base_date 17)" .
  have "sorted_wrt (<) (map fst ?slots)"
    by (simp add: sorted_wrt_iff_nth_less minutes_def del: upt_Suc)
  with general [of ?start "combine base_date 17"] len lst
  show "\<exists>slots. find_free_slots ?start (combine base_date 17) (minutes 30) [] = Inr slots
        \<and> length slots = 16
        \<and> sorted_wrt (<) (map fst slots)
        \<and> last slots = (combine base_date 16 + minutes 30, combine base_date 17)"
    by blast
qed

theorem find_free_slots_no_busy_witness:
  "find_free_slots 0 (minutes 90) (minutes 30) [] =
     Inr [(0, minutes 30), (minutes 30, minutes 60), (minutes 60, minutes 90)]
   \<and> (\<exists>slots. find_free_slots (combine 19848 9) (combine 19848 17) (minutes 30) [] = Inr slots
        \<and> length slots = 16
        \<and> last slots = (combine 19848 16 + minutes 30, combine 19848 17))"
proof -
  have "nat ((minutes 90 - 0) div minutes 30) = 3"
    by (simp add: minutes_def)
  then have "[0..<nat ((minutes 90 - 0) div minutes 30)] = [0, 1, 2]"
    by (simp add: upt_rec)
  with find_free_slots_no_busy [of 0 "minutes 90" 19848] show ?thesis
    by (auto simp: minutes_def)
qed

section \<open>Properties of the Step Executor\<close>

lemma execute_find_contact:
  "execute sv ''contacts'' ''find_contact'' parameters =
     and_then (param parameters ''name'') (\<lambda>name. Inr (find_contact sv name))"
  by (simp add: execute_def execute_contacts_api_def)

lemma execute_get_contact_details:
  "execute sv ''contacts'' ''get_contact_details'' parameters =
     and_then (param parameters ''contact_id'') (\<lambda>contact_id. Inr (get_contact_details sv contact_id))"
  by (simp add: execute_def execute_contacts_api_def)

lemma execute_check_availability:
  "execute sv ''calendar'' ''check_availability'' parameters =
     and_then (param parameters ''user_id'') (\<lambda>user_id.
     and_then (param parameters ''start_time'') (\<lambda>start_time.
     and_then (param parameters ''end_time'') (\<lambda>end_time.
       Inr (check_availability sv user_id start_time end_time))))"
  by (simp add: execute_def execute_calendar_api_def)

lemma execute_get_free_slots:
  "execute sv ''calendar'' ''get_free_slots'' parameters =
     and_then (param parameters ''user_id'') (\<lambda>user_id.
     and_then (param parameters ''other_user_id'') (\<lambda>other_user_id.
       Inr (get_free_slots sv user_id other_user_id (dict_get parameters ''date''))))"
  by (simp add: execute_def execute_calendar_api_def)

lemma execute_book_meeting:
  "execute sv ''calendar'' ''book_meeting'' parameters =
     and_then (param parameters ''title'') (\<lambda>title.
     and_then (param parameters ''attendees'') (\<lambda>attendees.
     and_then (param parameters ''start_time'') (\<lambda>start_time.
     and_then (param parameters ''end_time'') (\<lambda>end_time.
       Inr (book_meeting sv title attendees start_time end_time
              (dict_get_default parameters ''description'' (PStr '''')))))))"
  by (simp add: execute_def execute_calendar_api_def)

lemma execute_get_meeting_preferences:
  "execute sv ''preferences'' ''get_meeting_preferences'' parameters =
     and_then (param parameters ''user_id'') (\<lambda>user_id.
       Inr (get_meeting_preferences user_id (dict_get_default parameters ''ask_user'' (PBool False))))"
  by (simp add: execute_def execute_preferences_api_def)

lemma execute_unknown_api:
  "api_name \<noteq> ''contacts'' \<Longrightarrow> api_name \<noteq> ''calendar'' \<Longrightarrow> api_name \<noteq> ''preferences'' \<Longrightarrow>
   execute sv api_name action_name parameters = Inr (failure (''Unknown API: '' @ api_name))"
  by (simp add: execute_def)

lemma execute_unknown_contacts_action:
  "action_name \<noteq> ''find_contact'' \<Longrightarrow> action_name \<noteq> ''get_contact_details'' \<Longrightarrow>
   execute sv ''contacts'' action_name parameters =
     Inr (failure (''Unknown contacts action: '' @ action_name))"
  by (simp add: execute_def execute_contacts_api_def)

lemma execute_unknown_calendar_action:
  "action_name \<noteq> ''check_availability'' \<Longrightarrow> action_name \<noteq> ''get_free_slots'' \<Longrightarrow>
   action_name \<noteq> ''book_meeting'' \<Longrightarrow>
   execute sv ''calendar'' action_name parameters =
     Inr (failure (''Unknown calendar action: '' @ action_name))"
  by (simp add: execute_def execute_calendar_api_def)

lemma execute_unknown_preferences_action:
  "action_name \<noteq> ''get_meeting_preferences'' \<Longrightarrow>
   execute sv ''preferences'' action_name parameters =
     Inr (failure (''Unknown preferences action: '' @ action_name))"
  by (simp add: execute_def execute_preferences_api_def)

lemma required_keys_recognized:
  "required_keys ''contacts'' ''find_contact'' = [''name'']"
  "required_keys ''contacts'' ''get_contact_details'' = [''contact_id'']"
  "required_keys ''calendar'' ''check_availability'' = [''user_id'', ''start_time'', ''end_time'']"
  "required_keys ''calendar'' ''get_free_slots'' = [''user_id'', ''other_user_id'']"
  "required_keys ''calendar'' ''book_meeting'' = [''title'', ''attendees'', ''start_time'', ''end_time'']"
  "required_keys ''preferences'' ''get_meeting_preferences'' = [''user_id'']"
  by (simp_all add: required_keys_def)

lemma recognized_cases:
  assumes "recognized api_name action_name"
  obtains
      "api_name = ''contacts''" "action_name = ''find_contact''"
    | "api_name = ''contacts''" "action_name = ''get_contact_details''"
    | "api_name = ''calendar''" "action_name = ''check_availability''"
    | "api_name = ''calendar''" "action_name = ''get_free_slots''"
    | "api_name = ''calendar''" "action_name = ''book_meeting''"
    | "api_name = ''preferences''" "action_name = ''get_meeting_preferences''"
  using assms that unfolding recognized_def by argo

lemma execute_unrecognized:
  assumes "\<not> recognized api_name action_name"
  shows "required_keys api_name action_name = []"
    and "\<exists>msg. execute sv api_name action_name parameters = Inr (failure msg)"
proof -
  show "required_keys api_name action_name = []"
    using assms unfolding recognized_def required_keys_def by presburger
  show "\<exists>msg. execute sv api_name action_name parameters = Inr (failure msg)"
  proof (cases "api_name = ''contacts''")
    case True
    with assms have "action_name \<noteq> ''find_contact''" "action_name \<noteq> ''get_contact_details''"
      by (simp_all add: recognized_def)
    from execute_unknown_contacts_action [OF this] True show ?thesis by (intro exI) simp
  next
    case nc: False
    show ?thesis
    proof (cases "api_name = ''calendar''")
      case True
      with assms have "action_name \<noteq> ''check_availability''" "action_name \<noteq> ''get_free_slots''"
        "action_name \<noteq> ''book_meeting''"
        by (simp_all add: recognized_def)
      from execute_unknown_calendar_action [OF this] True show ?thesis by (intro exI) simp
    next
      case ncal: False
      show ?thesis
      proof (cases "api_name = ''preferences''")
        case True
        with assms have "action_name \<noteq> ''get_meeting_preferences''"
          by (simp add: recognized_def)
        from execute_unknown_preferences_action [OF this] True show ?thesis by (intro exI) simp
      next
        case False
        from execute_unknown_api [OF nc ncal False] show ?thesis by (intro exI)
      qed
    qed
  qed
qed

lemma and_then_param:
  "and_then (param parameters key) f =
     (case map_of parameters key of None \<Rightarrow> Inl (key_error key) | Some v \<Rightarrow> f v)"
  by (simp add: and_then_def param_def split: option.splits)

lemma execute_missing_key:
  assumes "first_missing api_name action_name parameters = Some key"
  shows "execute sv api_name action_name parameters = Inl (key_error key)"
proof (cases "recognized api_name action_name")
  case False
  from execute_unrecognized(1) [OF False] assms show ?thesis
    by (simp add: first_missing_def)
next
  case True
  then show ?thesis
  proof (cases rule: recognized_cases)
    case 1
    with assms show ?thesis
      by (simp add: execute_find_contact and_then_param first_missing_def required_keys_recognized
          split: if_splits option.splits)
  next
    case 2
    with assms show ?thesis
      by (simp add: execute_get_contact_details and_then_param first_missing_def required_keys_recognized
          split: if_splits option.splits)
  next
    case 3
    with assms show ?thesis
      by (simp add: execute_check_availability and_then_param first_missing_def required_keys_recognized
          split: if_splits option.splits)
  next
    case 4
    with assms show ?thesis
      by (simp add: execute_get_free_slots and_then_param first_missing_def required_keys_recognized
          split: if_splits option.splits)
  next
    case 5
    with assms show ?thesis
      by (simp add: execute_book_meeting and_then_param first_missing_def required_keys_recognized
          split: if_splits option.splits)
  next
    case 6
    with assms show ?thesis
      by (simp add: execute_get_meeting_preferences and_then_param first_missing_def required_keys_recognized
          split: if_splits option.splits)
  qed
qed

lemma execute_all_keys:
  assumes "first_missing api_name action_name parameters = None"
  shows "\<exists>result. execute sv api_name action_name parameters = Inr result"
proof (cases "recognized api_name action_name")
  case False
  obtain msg where "execute sv api_name action_name parameters = Inr (failure msg)"
    using execute_unrecognized(2) [OF False] ..
  then show ?thesis ..
next
  case True
  then show ?thesis
  proof (cases rule: recognized_cases)
    case 1
    with assms show ?thesis
      by (simp add: execute_find_contact and_then_param first_missing_def required_keys_recognized
          split: if_splits option.splits)
  next
    case 2
    with assms show ?thesis
      by (simp add: execute_get_contact_details and_then_param first_missing_def required_keys_recognized
          split: if_splits option.splits)
  next
    case 3
    with assms show ?thesis
      by (simp add: execute_check_availability and_then_param first_missing_def required_keys_recognized
          split: if_splits option.splits)
  next
    case 4
    with assms show ?thesis
      by (simp add: execute_get_free_slots and_then_param first_missing_def required_keys_recognized
          split: if_splits option.splits)
  next
    case 5
    with assms show ?thesis
      by (simp add: execute_book_meeting and_then_param first_missing_def required_keys_recognized
          split: if_splits option.splits)
  next
    case 6
    with assms show ?thesis
      by (simp add: execute_get_meeting_preferences and_then_param first_missing_def required_keys_recognized
          split: if_splits option.splits)
  qed
qed

lemma first_missing_absent:
  "first_missing api_name action_name parameters = Some key \<Longrightarrow> map_of parameters key = None"
  unfolding first_missing_def by (auto simp: find_Some_iff)

lemma find_contact_service_error:
  "connections_list sv = Inl e \<Longrightarrow>
   find_contact sv (PStr name) = failure (''Error finding contact: '' @ str_exn e)"
  by (simp add: find_contact_def find_contact_body_def catching_def and_then_def Let_def)

lemma get_contact_details_service_error:
  "people_get sv contact_id = Inl e \<Longrightarrow>
   get_contact_details sv contact_id = failure (''Error getting contact details: '' @ str_exn e)"
  by (simp add: get_contact_details_def get_contact_details_body_def catching_def and_then_def)

lemma check_availability_service_error:
  "datetime_fromisoformat sv (replace_Z start_text) = Inr start_dt \<Longrightarrow>
   datetime_fromisoformat sv (replace_Z end_text) = Inr end_dt \<Longrightarrow>
   events_list sv start_dt end_dt = Inl e \<Longrightarrow>
   check_availability sv user_id (PStr start_text) (PStr end_text) =
     failure (''Error checking availability: '' @ str_exn e)"
  by (simp add: check_availability_def check_availability_body_def parse_datetime_def
      catching_def and_then_def)

lemma get_free_slots_body_date_error:
  "base_date_of sv date = Inl e \<Longrightarrow> get_free_slots_body sv user_id other_user_id date = Inl e"
  unfolding base_date_of_def get_free_slots_body_def by (simp add: and_then_def)

lemma get_free_slots_date_error:
  "base_date_of sv date = Inl e \<Longrightarrow>
   get_free_slots sv user_id other_user_id date = failure (''Error getting free slots: '' @ str_exn e)"
  by (simp add: get_free_slots_def catching_def get_free_slots_body_date_error)

lemma get_free_slots_lookup_error:
  "base_date_of sv date = Inr day \<Longrightarrow> people_get sv other_user_id = Inl e \<Longrightarrow>
   get_free_slots sv user_id other_user_id date = failure ''Could not find contact email''"
  unfolding base_date_of_def get_free_slots_def get_free_slots_body_def
  by (simp add: catching_def and_then_def Let_def
      get_contact_details_service_error failure_def dict_get_default_def)

lemma get_free_slots_service_error:
  "base_date_of sv date = Inr day \<Longrightarrow>
   truthy (dict_get_default (get_contact_details sv other_user_id) ''success'' (PBool False)) \<Longrightarrow>
   truthy (dict_get_default (get_contact_details sv other_user_id) ''email'' (PStr '''')) \<Longrightarrow>
   freebusy_query sv (combine day 9) (combine day 17)
     (dict_get_default (get_contact_details sv other_user_id) ''email'' (PStr '''')) = Inl e \<Longrightarrow>
   get_free_slots sv user_id other_user_id date =
     failure (''Error getting free slots: '' @ str_exn e)"
  unfolding base_date_of_def get_free_slots_def get_free_slots_body_def
  by (simp add: catching_def and_then_def Let_def)

lemma book_meeting_service_error:
  "py_iter attendees = Inr attendee_ids \<Longrightarrow>
   attendee_emails sv attendee_ids [] = Inr emails \<Longrightarrow>
   events_insert sv
     [(''summary'', title),
      (''description'', description),
      (''start'', PDict [(''dateTime'', start_time), (''timeZone'', PStr ''UTC'')]),
      (''end'', PDict [(''dateTime'', end_time), (''timeZone'', PStr ''UTC'')]),
      (''attendees'', PList (map (\<lambda>email. PDict [(''email'', email)]) emails)),
      (''reminders'', PDict [(''useDefault'', PBool True)])] = Inl e \<Longrightarrow>
   book_meeting sv title attendees start_time end_time description =
     failure (''Error booking meeting: '' @ str_exn e)"
  by (simp add: book_meeting_def book_meeting_body_def catching_def and_then_def Let_def)

lemma attendee_emails_drops_failed_lookup:
  "contains_at attendee_id = Inr False \<Longrightarrow> people_get sv attendee_id = Inl e \<Longrightarrow>
   attendee_emails sv (attendee_id # rest) emails = attendee_emails sv rest emails"
  by (simp add: and_then_def get_contact_details_service_error failure_def dict_get_default_def Let_def)

lemma attendee_emails_drops_anywhere:
  "contains_at attendee_id = Inr False \<Longrightarrow> people_get sv attendee_id = Inl e \<Longrightarrow>
   attendee_emails sv (before @ attendee_id # rest) emails =
   attendee_emails sv (before @ rest) emails"
proof (induction before arbitrary: emails)
  case Nil
  then show ?case
    by (simp add: attendee_emails_drops_failed_lookup del: attendee_emails.simps)
next
  case (Cons b before)
  show ?case
    by (simp add: Cons.IH [OF Cons.prems] and_then_def Let_def split: sum.splits)
qed

lemma book_meeting_drops_failed_lookup:
  "contains_at attendee_id = Inr False \<Longrightarrow> people_get sv attendee_id = Inl e \<Longrightarrow>
   book_meeting sv title (PList (before @ attendee_id # others)) start_time end_time description =
   book_meeting sv title (PList (before @ others)) start_time end_time description"
  by (simp add: book_meeting_def book_meeting_body_def attendee_emails_drops_anywhere
      and_then_def del: attendee_emails.simps)

text \<open>
  Claim C10. \<open>execute\<close> raises to its caller exactly when a parameter key that the
  dispatch reads with \<open>params[key]\<close> is absent, and then it raises the KeyError
  of the first such key: \<open>execute('contacts', 'find_contact', {})\<close> raises
  \<open>KeyError('name')\<close>, \<open>execute('calendar', 'get_free_slots', {})\<close> raises
  \<open>KeyError('user_id')\<close>, and with \<open>user_id\<close> present but no \<open>other_user_id\<close> it
  raises \<open>KeyError('other_user_id')\<close>. When the keys are present, \<open>execute\<close>
  returns a result whatever the services do: only what happens inside the action
  bodies is turned into an error result.
\<close>

theorem execute_raises_key_error:
  "(first_missing api_name action_name parameters = Some key \<longrightarrow>
      execute sv api_name action_name parameters = Inl (key_error key))
   \<and> (first_missing api_name action_name parameters = None \<longrightarrow>
      (\<exists>result. execute sv api_name action_name parameters = Inr result))
   \<and> execute sv ''contacts'' ''find_contact'' [] = Inl (key_error ''name'')
   \<and> execute sv ''calendar'' ''get_free_slots'' [] = Inl (key_error ''user_id'')
   \<and> execute sv ''calendar'' ''get_free_slots'' [(''user_id'', user_id)] =
       Inl (key_error ''other_user_id'')"
proof (intro conjI impI)
  assume "first_missing api_name action_name parameters = Some key"
  then show "execute sv api_name action_name parameters = Inl (key_error key)"
    by (rule execute_missing_key)
next
  assume "first_missing api_name action_name parameters = None"
  then show "\<exists>result. execute sv api_name action_name parameters = Inr result"
    by (rule execute_all_keys)
next
  show "execute sv ''contacts'' ''find_contact'' [] = Inl (key_error ''name'')"
    by (simp add: execute_find_contact and_then_param)
next
  show "execute sv ''calendar'' ''get_free_slots'' [] = Inl (key_error ''user_id'')"
    by (simp add: execute_get_free_slots and_then_param)
next
  show "execute sv ''calendar'' ''get_free_slots'' [(''user_id'', user_id)] =
      Inl (key_error ''other_user_id'')"
    by (simp add: execute_get_free_slots and_then_param)
qed

theorem execute_raises_key_error_witness:
  "first_missing ''calendar'' ''book_meeting'' [(''title'', PStr ''Sync'')] = Some ''attendees''
   \<and> execute directory_down ''calendar'' ''book_meeting'' [(''title'', PStr ''Sync'')] =
       Inl (key_error ''attendees'')
   \<and> first_missing ''contacts'' ''find_contact'' [(''name'', PStr ''Chinmay Sir'')] = None
   \<and> execute directory_down ''contacts'' ''find_contact'' [(''name'', PStr ''Chinmay Sir'')] =
       Inr (failure ''Error finding contact: HttpError 503'')"
proof -
  note t = execute_raises_key_error [where sv = directory_down]
  have m: "first_missing ''calendar'' ''book_meeting'' [(''title'', PStr ''Sync'')] = Some ''attendees''"
    by (simp add: first_missing_def required_keys_recognized)
  have n: "first_missing ''contacts'' ''find_contact'' [(''name'', PStr ''Chinmay Sir'')] = None"
    by (simp add: first_missing_def required_keys_recognized)
  have "execute directory_down ''calendar'' ''book_meeting'' [(''title'', PStr ''Sync'')] =
       Inl (key_error ''attendees'')"
    by (rule t [THEN conjunct1, THEN mp, OF m])
  moreover
  have "\<exists>result. execute directory_down ''contacts'' ''find_contact''
      [(''name'', PStr ''Chinmay Sir'')] = Inr result"
    by (rule t [THEN conjunct2, THEN conjunct1, THEN mp, OF n])
  then have "execute directory_down ''contacts'' ''find_contact'' [(''name'', PStr ''Chinmay Sir'')] =
       Inr (failure ''Error finding contact: HttpError 503'')"
    by (simp add: execute_find_contact param_def and_then_def find_contact_def
        find_contact_body_def catching_def directory_down_def)
  ultimately show ?thesis using m n by simp
qed

lemma execute_book_meeting_drops_failed_lookup:
  assumes "map_of parameters ''title'' = Some title"
    and "map_of parameters ''attendees'' = Some (PList (before @ attendee_id # others))"
    and "map_of parameters ''start_time'' = Some start_time"
    and "map_of parameters ''end_time'' = Some end_time"
    and "contains_at attendee_id = Inr False"
    and "people_get sv attendee_id = Inl e"
  shows "execute sv ''calendar'' ''book_meeting'' parameters =
    execute sv ''calendar'' ''book_meeting''
      (AList.update ''attendees'' (PList (before @ others)) parameters)"
proof -
  let ?updated = "AList.update ''attendees'' (PList (before @ others)) parameters"
  have u: "map_of ?updated = (map_of parameters)(''attendees'' \<mapsto> PList (before @ others))"
    by (rule update_conv')
  have d: "dict_get_default ?updated ''description'' (PStr '''') =
      dict_get_default parameters ''description'' (PStr '''')"
    unfolding dict_get_default_def u by simp
  have "execute sv ''calendar'' ''book_meeting'' parameters =
      Inr (book_meeting sv title (PList (before @ attendee_id # others)) start_time end_time
            (dict_get_default parameters ''description'' (PStr '''')))"
    using assms(1-4) by (simp add: execute_book_meeting and_then_param)
  also have "\<dots> = Inr (book_meeting sv title (PList (before @ others)) start_time end_time
            (dict_get_default parameters ''description'' (PStr '''')))"
    by (simp only: book_meeting_drops_failed_lookup [OF assms(5,6)])
  also have "\<dots> = execute sv ''calendar'' ''book_meeting'' ?updated"
    using assms(1,3,4) unfolding execute_book_meeting and_then_param u d by simp
  finally show ?thesis .
qed

text \<open>
  Claim C6, as the code has it. An unknown api gives the result
  \<open>{success: False, error: "Unknown API: <api>"}\<close> and an unknown action of a
  known api gives \<open>"Unknown <api> action: <action>"\<close>, without raising. No
  exception of a service call made during a recognized action leaves \<open>execute\<close>:
  what \<open>execute\<close> raises is only the KeyError of an absent parameter. When the
  action's own service request is reached and raises (the connections list of
  \<open>find_contact\<close>, the person lookup of \<open>get_contact_details\<close>, the events list of
  \<open>check_availability\<close>, the free/busy query of \<open>get_free_slots\<close>, the event
  insertion of \<open>book_meeting\<close>), the result has \<open>success\<close> false and the error
  \<open>"<what failed>: <message of the exception>"\<close>. In \<open>get_free_slots\<close>, for every
  date parameter: a date that does not parse gives \<open>success\<close> false with the
  parser's message, and otherwise an exception of the nested contact lookup gives
  \<open>success\<close> false with the fixed error "Could not find contact email". In
  \<open>book_meeting\<close> an exception of the nested contact lookup only leaves that
  attendee out, wherever the attendee stands in the list: the booking goes on as
  if the attendee had not been listed.
\<close>

theorem execute_normalizes_failures:
  "(api_name \<noteq> ''contacts'' \<and> api_name \<noteq> ''calendar'' \<and> api_name \<noteq> ''preferences'' \<longrightarrow>
      execute sv api_name action_name parameters = Inr (failure (''Unknown API: '' @ api_name)))
   \<and> (action_name \<noteq> ''find_contact'' \<and> action_name \<noteq> ''get_contact_details'' \<longrightarrow>
      execute sv ''contacts'' action_name parameters =
        Inr (failure (''Unknown contacts action: '' @ action_name)))
   \<and> (action_name \<noteq> ''check_availability'' \<and> action_name \<noteq> ''get_free_slots''
        \<and> action_name \<noteq> ''book_meeting'' \<longrightarrow>
      execute sv ''calendar'' action_name parameters =
        Inr (failure (''Unknown calendar action: '' @ action_name)))
   \<and> (action_name \<noteq> ''get_meeting_preferences'' \<longrightarrow>
      execute sv ''preferences'' action_name parameters =
        Inr (failure (''Unknown preferences action: '' @ action_name)))
   \<and> (execute sv api_name action_name parameters = Inl raised \<longrightarrow>
      (\<exists>key. raised = key_error key \<and> map_of parameters key = None))
   \<and> (map_of parameters ''name'' = Some (PStr name) \<and> connections_list sv = Inl e \<longrightarrow>
      execute sv ''contacts'' ''find_contact'' parameters =
        Inr (failure (''Error finding contact: '' @ str_exn e)))
   \<and> (map_of parameters ''contact_id'' = Some contact_id \<and> people_get sv contact_id = Inl e \<longrightarrow>
      execute sv ''contacts'' ''get_contact_details'' parameters =
        Inr (failure (''Error getting contact details: '' @ str_exn e)))
   \<and> (map_of parameters ''user_id'' = Some user_id
        \<and> map_of parameters ''start_time'' = Some (PStr start_text)
        \<and> map_of parameters ''end_time'' = Some (PStr end_text)
        \<and> datetime_fromisoformat sv (replace_Z start_text) = Inr start_dt
        \<and> datetime_fromisoformat sv (replace_Z end_text) = Inr end_dt
        \<and> events_list sv start_dt end_dt = Inl e \<longrightarrow>
      execute sv ''calendar'' ''check_availability'' parameters =
        Inr (failure (''Error checking availability: '' @ str_exn e)))
   \<and> (map_of parameters ''user_id'' = Some user_id
        \<and> map_of parameters ''other_user_id'' = Some other_user_id
        \<and> base_date_of sv (dict_get parameters ''date'') = Inr day
        \<and> truthy (dict_get_default (get_contact_details sv other_user_id) ''success'' (PBool False))
        \<and> truthy (dict_get_default (get_contact_details sv other_user_id) ''email'' (PStr ''''))
        \<and> freebusy_query sv (combine day 9) (combine day 17)
             (dict_get_default (get_contact_details sv other_user_id) ''email'' (PStr '''')) = Inl e \<longrightarrow>
      execute sv ''calendar'' ''get_free_slots'' parameters =
        Inr (failure (''Error getting free slots: '' @ str_exn e)))
   \<and> (map_of parameters ''title'' = Some title
        \<and> map_of parameters ''attendees'' = Some attendees
        \<and> map_of parameters ''start_time'' = Some start_time
        \<and> map_of parameters ''end_time'' = Some end_time
        \<and> py_iter attendees = Inr attendee_ids
        \<and> attendee_emails sv attendee_ids [] = Inr emails
        \<and> events_insert sv
             [(''summary'', title),
              (''description'', dict_get_default parameters ''description'' (PStr '''')),
              (''start'', PDict [(''dateTime'', start_time), (''timeZone'', PStr ''UTC'')]),
              (''end'', PDict [(''dateTime'', end_time), (''timeZone'', PStr ''UTC'')]),
              (''attendees'', PList (map (\<lambda>email. PDict [(''email'', email)]) emails)),
              (''reminders'', PDict [(''useDefault'', PBool True)])] = Inl e \<longrightarrow>
      execute sv ''calendar'' ''book_meeting'' parameters =
        Inr (failure (''Error booking meeting: '' @ str_exn e)))
   \<and> (map_of parameters ''user_id'' = Some user_id
        \<and> map_of parameters ''other_user_id'' = Some other_user_id
        \<and> base_date_of sv (dict_get parameters ''date'') = Inl e \<longrightarrow>
      execute sv ''calendar'' ''get_free_slots'' parameters =
        Inr (failure (''Error getting free slots: '' @ str_exn e)))
   \<and> (map_of parameters ''user_id'' = Some user_id
        \<and> map_of parameters ''other_user_id'' = Some other_user_id
        \<and> base_date_of sv (dict_get parameters ''date'') = Inr day
        \<and> people_get sv other_user_id = Inl e \<longrightarrow>
      execute sv ''calendar'' ''get_free_slots'' parameters =
        Inr (failure ''Could not find contact email''))
   \<and> (map_of parameters ''title'' = Some title
        \<and> map_of parameters ''attendees'' = Some (PList (before @ attendee_id # others))
        \<and> map_of parameters ''start_time'' = Some start_time
        \<and> map_of parameters ''end_time'' = Some end_time
        \<and> contains_at attendee_id = Inr False
        \<and> people_get sv attendee_id = Inl e \<longrightarrow>
      execute sv ''calendar'' ''book_meeting'' parameters =
        execute sv ''calendar'' ''book_meeting''
          (AList.update ''attendees'' (PList (before @ others)) parameters))"
proof (intro conjI impI; (elim conjE)?)
  assume "api_name \<noteq> ''contacts''" "api_name \<noteq> ''calendar''" "api_name \<noteq> ''preferences''"
  then show "execute sv api_name action_name parameters = Inr (failure (''Unknown API: '' @ api_name))"
    by (rule execute_unknown_api)
next
  assume "action_name \<noteq> ''find_contact''" "action_name \<noteq> ''get_contact_details''"
  then show "execute sv ''contacts'' action_name parameters =
      Inr (failure (''Unknown contacts action: '' @ action_name))"
    by (rule execute_unknown_contacts_action)
next
  assume "action_name \<noteq> ''check_availability''" "action_name \<noteq> ''get_free_slots''"
    "action_name \<noteq> ''book_meeting''"
  then show "execute sv ''calendar'' action_name parameters =
      Inr (failure (''Unknown calendar action: '' @ action_name))"
    by (rule execute_unknown_calendar_action)
next
  assume "action_name \<noteq> ''get_meeting_preferences''"
  then show "execute sv ''preferences'' action_name parameters =
      Inr (failure (''Unknown preferences action: '' @ action_name))"
    by (rule execute_unknown_preferences_action)
next
  assume raised: "execute sv api_name action_name parameters = Inl raised"
  show "\<exists>key. raised = key_error key \<and> map_of parameters key = None"
  proof (cases "first_missing api_name action_name parameters")
    case None
    from execute_all_keys [OF None, of sv] raised show ?thesis by simp
  next
    case (Some key)
    from execute_missing_key [OF Some, of sv] raised first_missing_absent [OF Some]
    show ?thesis by (intro exI [of _ key]) simp
  qed
next
  assume "map_of parameters ''name'' = Some (PStr name)" "connections_list sv = Inl e"
  then show "execute sv ''contacts'' ''find_contact'' parameters =
      Inr (failure (''Error finding contact: '' @ str_exn e))"
    by (simp add: execute_find_contact and_then_param find_contact_service_error)
next
  assume "map_of parameters ''contact_id'' = Some contact_id" "people_get sv contact_id = Inl e"
  then show "execute sv ''contacts'' ''get_contact_details'' parameters =
      Inr (failure (''Error getting contact details: '' @ str_exn e))"
    by (simp add: execute_get_contact_details and_then_param get_contact_details_service_error)
next
  assume "map_of parameters ''user_id'' = Some user_id"
    "map_of parameters ''start_time'' = Some (PStr start_text)"
    "map_of parameters ''end_time'' = Some (PStr end_text)"
    "datetime_fromisoformat sv (replace_Z start_text) = Inr start_dt"
    "datetime_fromisoformat sv (replace_Z end_text) = Inr end_dt"
    "events_list sv start_dt end_dt = Inl e"
  then show "execute sv ''calendar'' ''check_availability'' parameters =
      Inr (failure (''Error checking availability: '' @ str_exn e))"
    by (simp add: execute_check_availability and_then_param check_availability_service_error)
next
  assume p: "map_of parameters ''user_id'' = Some user_id"
    "map_of parameters ''other_user_id'' = Some other_user_id"
    and c: "base_date_of sv (dict_get parameters ''date'') = Inr day"
    "truthy (dict_get_default (get_contact_details sv other_user_id) ''success'' (PBool False))"
    "truthy (dict_get_default (get_contact_details sv other_user_id) ''email'' (PStr ''''))"
    "freebusy_query sv (combine day 9) (combine day 17)
       (dict_get_default (get_contact_details sv other_user_id) ''email'' (PStr '''')) = Inl e"
  from get_free_slots_service_error [OF c, of user_id] p
  show "execute sv ''calendar'' ''get_free_slots'' parameters =
      Inr (failure (''Error getting free slots: '' @ str_exn e))"
    by (simp add: execute_get_free_slots and_then_param)
next
  assume p: "map_of parameters ''title'' = Some title"
    "map_of parameters ''attendees'' = Some attendees"
    "map_of parameters ''start_time'' = Some start_time"
    "map_of parameters ''end_time'' = Some end_time"
    and b: "py_iter attendees = Inr attendee_ids"
    "attendee_emails sv attendee_ids [] = Inr emails"
    "events_insert sv
       [(''summary'', title),
        (''description'', dict_get_default parameters ''description'' (PStr '''')),
        (''start'', PDict [(''dateTime'', start_time), (''timeZone'', PStr ''UTC'')]),
        (''end'', PDict [(''dateTime'', end_time), (''timeZone'', PStr ''UTC'')]),
        (''attendees'', PList (map (\<lambda>email. PDict [(''email'', email)]) emails)),
        (''reminders'', PDict [(''useDefault'', PBool True)])] = Inl e"
  from book_meeting_service_error [OF b] p
  show "execute sv ''calendar'' ''book_meeting'' parameters =
      Inr (failure (''Error booking meeting: '' @ str_exn e))"
    by (simp add: execute_book_meeting and_then_param)
next
  assume p: "map_of parameters ''user_id'' = Some user_id"
    "map_of parameters ''other_user_id'' = Some other_user_id"
    and c: "base_date_of sv (dict_get parameters ''date'') = Inl e"
  from get_free_slots_date_error [OF c, of user_id other_user_id] p
  show "execute sv ''calendar'' ''get_free_slots'' parameters =
      Inr (failure (''Error getting free slots: '' @ str_exn e))"
    by (simp add: execute_get_free_slots and_then_param)
next
  assume p: "map_of parameters ''user_id'' = Some user_id"
    "map_of parameters ''other_user_id'' = Some other_user_id"
    and c: "base_date_of sv (dict_get parameters ''date'') = Inr day"
    "people_get sv other_user_id = Inl e"
  from get_free_slots_lookup_error [OF c, of user_id] p
  show "execute sv ''calendar'' ''get_free_slots'' parameters =
      Inr (failure ''Could not find contact email'')"
    by (simp add: execute_get_free_slots and_then_param)
next
  assume "map_of parameters ''title'' = Some title"
    "map_of parameters ''attendees'' = Some (PList (before @ attendee_id # others))"
    "map_of parameters ''start_time'' = Some start_time"
    "map_of parameters ''end_time'' = Some end_time"
    "contains_at attendee_id = Inr False"
    "people_get sv attendee_id = Inl e"
  then show "execute sv ''calendar'' ''book_meeting'' parameters =
      execute sv ''calendar'' ''book_meeting''
        (AList.update ''attendees'' (PList (before @ others)) parameters)"
    by (rule execute_book_meeting_drops_failed_lookup)
qed

theorem execute_normalizes_failures_witness:
  "execute directory_down ''billing'' ''charge'' [] = Inr (failure ''Unknown API: billing'')
   \<and> execute directory_down ''contacts'' ''delete_contact'' [] =
       Inr (failure ''Unknown contacts action: delete_contact'')
   \<and> execute directory_down ''calendar'' ''cancel_meeting'' [] =
       Inr (failure ''Unknown calendar action: cancel_meeting'')
   \<and> execute directory_down ''preferences'' ''set_preferences'' [] =
       Inr (failure ''Unknown preferences action: set_preferences'')
   \<and> execute directory_down ''contacts'' ''find_contact'' [] = Inl (key_error ''name'')
   \<and> (\<exists>key. key_error ''name'' = key_error key \<and> map_of ([] :: pydict) key = None)
   \<and> connections_list directory_down = Inl (ServiceError ''HttpError 503'')
   \<and> execute directory_down ''contacts'' ''find_contact'' [(''name'', PStr ''Chinmay Sir'')] =
       Inr (failure ''Error finding contact: HttpError 503'')
   \<and> people_get directory_down (PStr ''c42'') = Inl (ServiceError ''HttpError 503'')
   \<and> execute directory_down ''contacts'' ''get_contact_details'' [(''contact_id'', PStr ''c42'')] =
       Inr (failure ''Error getting contact details: HttpError 503'')
   \<and> events_list calendar_down (Naive 0) (Naive 0) = Inl (ServiceError ''HttpError 500'')
   \<and> execute calendar_down ''calendar'' ''check_availability''
         [(''user_id'', PStr ''primary''), (''start_time'', PStr ''2024-05-06T09:00:00Z''),
          (''end_time'', PStr ''2024-05-06T09:30:00Z'')] =
       Inr (failure ''Error checking availability: HttpError 500'')
   \<and> base_date_of calendar_down (dict_get (params slots_step) ''date'') = Inr 19849
   \<and> execute calendar_down ''calendar'' ''get_free_slots'' (params slots_step) =
       Inr (failure ''Error getting free slots: HttpError 500'')
   \<and> execute calendar_down ''calendar'' ''book_meeting''
         [(''title'', PStr ''Sync''), (''attendees'', PList [PStr ''chinmay@example.org'']),
          (''start_time'', PStr ''2024-05-06T09:00:00Z''), (''end_time'', PStr ''2024-05-06T09:30:00Z'')] =
       Inr (failure ''Error booking meeting: HttpError 500'')
   \<and> base_date_of strict_dates (PStr ''PLACEHOLDER'') =
       Inl (ValueError (''Invalid isoformat string: '' @ squote ''PLACEHOLDER''))
   \<and> execute strict_dates ''calendar'' ''get_free_slots''
         [(''user_id'', PStr ''primary''), (''other_user_id'', PStr ''PLACEHOLDER''),
          (''date'', PStr ''PLACEHOLDER'')] =
       Inr (failure (''Error getting free slots: Invalid isoformat string: '' @ squote ''PLACEHOLDER''))
   \<and> base_date_of directory_down (dict_get (params slots_step) ''date'') = Inr 19849
   \<and> execute directory_down ''calendar'' ''get_free_slots'' (params slots_step) =
       Inr (failure ''Could not find contact email'')
   \<and> contains_at (PStr ''c42'') = Inr False
   \<and> execute directory_down ''calendar'' ''book_meeting'' three_attendees =
       execute directory_down ''calendar'' ''book_meeting''
         (AList.update ''attendees'' (PList ([PStr ''ana@example.org''] @ [PStr ''bo@example.org'']))
            three_attendees)"
proof -
  note t = execute_normalizes_failures
  note c1 = t [THEN conjunct1]
  note c2 = t [THEN conjunct2, THEN conjunct1]
  note c3 = t [THEN conjunct2, THEN conjunct2, THEN conjunct1]
  note c4 = t [THEN conjunct2, THEN conjunct2, THEN conjunct2, THEN conjunct1]
  note c5 = t [THEN conjunct2, THEN conjunct2, THEN conjunct2, THEN conjunct2, THEN conjunct1]
  note c6 = t [THEN conjunct2, THEN conjunct2, THEN conjunct2, THEN conjunct2, THEN conjunct2,
      THEN conjunct1]
  note c7 = t [THEN conjunct2, THEN conjunct2, THEN conjunct2, THEN conjunct2, THEN conjunct2,
      THEN conjunct2, THEN conjunct1]
  note c8 = t [THEN conjunct2, THEN conjunct2, THEN conjunct2, THEN conjunct2, THEN conjunct2,
      THEN conjunct2, THEN conjunct2, THEN conjunct1]
  note c9 = t [THEN conjunct2, THEN conjunct2, THEN conjunct2, THEN conjunct2, THEN conjunct2,
      THEN conjunct2, THEN conjunct2, THEN conjunct2, THEN conjunct1]
  note c10 = t [THEN conjunct2, THEN conjunct2, THEN conjunct2, THEN conjunct2, THEN conjunct2,
      THEN conjunct2, THEN conjunct2, THEN conjunct2, THEN conjunct2, THEN conjunct1]
  note c11 = t [THEN conjunct2, THEN conjunct2, THEN conjunct2, THEN conjunct2, THEN conjunct2,
      THEN conjunct2, THEN conjunct2, THEN conjunct2, THEN conjunct2, THEN conjunct2, THEN conjunct1]
  note c12 = t [THEN conjunct2, THEN conjunct2, THEN conjunct2, THEN conjunct2, THEN conjunct2,
      THEN conjunct2, THEN conjunct2, THEN conjunct2, THEN conjunct2, THEN conjunct2, THEN conjunct2,
      THEN conjunct1]
  note c13 = t [THEN conjunct2, THEN conjunct2, THEN conjunct2, THEN conjunct2, THEN conjunct2,
      THEN conjunct2, THEN conjunct2, THEN conjunct2, THEN conjunct2, THEN conjunct2, THEN conjunct2,
      THEN conjunct2]
  have h1: "''billing'' \<noteq> ''contacts'' \<and> ''billing'' \<noteq> ''calendar'' \<and> ''billing'' \<noteq> ''preferences''"
    by simp
  have r1: "execute directory_down ''billing'' ''charge'' [] = Inr (failure ''Unknown API: billing'')"
    using c1 [THEN mp, OF h1, of directory_down "''charge''" "[]"] by simp
  have h2: "''delete_contact'' \<noteq> ''find_contact'' \<and> ''delete_contact'' \<noteq> ''get_contact_details''"
    by simp
  have r2: "execute directory_down ''contacts'' ''delete_contact'' [] =
       Inr (failure ''Unknown contacts action: delete_contact'')"
    using c2 [THEN mp, OF h2, of directory_down "[]"] by simp
  have h3: "''cancel_meeting'' \<noteq> ''check_availability'' \<and> ''cancel_meeting'' \<noteq> ''get_free_slots''
      \<and> ''cancel_meeting'' \<noteq> ''book_meeting''"
    by simp
  have r3: "execute directory_down ''calendar'' ''cancel_meeting'' [] =
       Inr (failure ''Unknown calendar action: cancel_meeting'')"
    using c3 [THEN mp, OF h3, of directory_down "[]"] by simp
  have h4: "''set_preferences'' \<noteq> ''get_meeting_preferences''"
    by simp
  have r4: "execute directory_down ''preferences'' ''set_preferences'' [] =
       Inr (failure ''Unknown preferences action: set_preferences'')"
    using c4 [THEN mp, OF h4, of directory_down "[]"] by simp
  have h5: "execute directory_down ''contacts'' ''find_contact'' [] = Inl (key_error ''name'')"
    by (simp add: execute_find_contact and_then_param)
  have r5: "\<exists>key. key_error ''name'' = key_error key \<and> map_of ([] :: pydict) key = None"
    by (rule c5 [THEN mp, OF h5])
  have s6: "connections_list directory_down = Inl (ServiceError ''HttpError 503'')"
    by (simp add: directory_down_def)
  have h6: "map_of [(''name'', PStr ''Chinmay Sir'')] ''name'' = Some (PStr ''Chinmay Sir'')
      \<and> connections_list directory_down = Inl (ServiceError ''HttpError 503'')"
    using s6 by simp
  have r6: "execute directory_down ''contacts'' ''find_contact'' [(''name'', PStr ''Chinmay Sir'')] =
       Inr (failure ''Error finding contact: HttpError 503'')"
    using c6 [THEN mp, OF h6] by simp
  have s7: "people_get directory_down (PStr ''c42'') = Inl (ServiceError ''HttpError 503'')"
    by (simp add: directory_down_def)
  have h7: "map_of [(''contact_id'', PStr ''c42'')] ''contact_id'' = Some (PStr ''c42'')
      \<and> people_get directory_down (PStr ''c42'') = Inl (ServiceError ''HttpError 503'')"
    using s7 by simp
  have r7: "execute directory_down ''contacts'' ''get_contact_details'' [(''contact_id'', PStr ''c42'')] =
       Inr (failure ''Error getting contact details: HttpError 503'')"
    using c7 [THEN mp, OF h7] by simp
  let ?times = "[(''user_id'', PStr ''primary''), (''start_time'', PStr ''2024-05-06T09:00:00Z''),
          (''end_time'', PStr ''2024-05-06T09:30:00Z'')]"
  have s8: "events_list calendar_down (Naive 0) (Naive 0) = Inl (ServiceError ''HttpError 500'')"
    by (simp add: calendar_down_def)
  have h8: "map_of ?times ''user_id'' = Some (PStr ''primary'')
      \<and> map_of ?times ''start_time'' = Some (PStr ''2024-05-06T09:00:00Z'')
      \<and> map_of ?times ''end_time'' = Some (PStr ''2024-05-06T09:30:00Z'')
      \<and> datetime_fromisoformat calendar_down (replace_Z ''2024-05-06T09:00:00Z'') = Inr (Naive 0)
      \<and> datetime_fromisoformat calendar_down (replace_Z ''2024-05-06T09:30:00Z'') = Inr (Naive 0)
      \<and> events_list calendar_down (Naive 0) (Naive 0) = Inl (ServiceError ''HttpError 500'')"
    by (simp add: calendar_down_def)
  have r8: "execute calendar_down ''calendar'' ''check_availability'' ?times =
       Inr (failure ''Error checking availability: HttpError 500'')"
    using c8 [THEN mp, OF h8] by simp
  have g: "get_contact_details calendar_down (PStr ''PLACEHOLDER'') =
      [(''success'', PBool True), (''contact_id'', PStr ''PLACEHOLDER''), (''name'', PStr ''Chinmay Sir''),
       (''email'', PStr ''chinmay@example.org''), (''phone'', PStr '''')]"
    by (simp add: get_contact_details_def get_contact_details_body_def catching_def and_then_def
        first_value_def calendar_down_def dict_get_default_def)
  have s9: "base_date_of calendar_down (dict_get (params slots_step) ''date'') = Inr 19849"
    by (simp add: base_date_of_def slots_step_def dict_get_def calendar_down_def)
  have h9: "map_of (params slots_step) ''user_id'' = Some (PStr ''primary'')
      \<and> map_of (params slots_step) ''other_user_id'' = Some (PStr ''PLACEHOLDER'')
      \<and> base_date_of calendar_down (dict_get (params slots_step) ''date'') = Inr 19849
      \<and> truthy (dict_get_default (get_contact_details calendar_down (PStr ''PLACEHOLDER''))
                  ''success'' (PBool False))
      \<and> truthy (dict_get_default (get_contact_details calendar_down (PStr ''PLACEHOLDER''))
                  ''email'' (PStr ''''))
      \<and> freebusy_query calendar_down (combine 19849 9) (combine 19849 17)
           (dict_get_default (get_contact_details calendar_down (PStr ''PLACEHOLDER'')) ''email'' (PStr ''''))
          = Inl (ServiceError ''HttpError 500'')"
    unfolding g using s9 by (simp add: dict_get_default_def calendar_down_def slots_step_def)
  have r9: "execute calendar_down ''calendar'' ''get_free_slots'' (params slots_step) =
       Inr (failure ''Error getting free slots: HttpError 500'')"
    using c9 [THEN mp, OF h9] by simp
  let ?booking = "[(''title'', PStr ''Sync''), (''attendees'', PList [PStr ''chinmay@example.org'']),
          (''start_time'', PStr ''2024-05-06T09:00:00Z''), (''end_time'', PStr ''2024-05-06T09:30:00Z'')]"
  have h10: "map_of ?booking ''title'' = Some (PStr ''Sync'')
      \<and> map_of ?booking ''attendees'' = Some (PList [PStr ''chinmay@example.org''])
      \<and> map_of ?booking ''start_time'' = Some (PStr ''2024-05-06T09:00:00Z'')
      \<and> map_of ?booking ''end_time'' = Some (PStr ''2024-05-06T09:30:00Z'')
      \<and> py_iter (PList [PStr ''chinmay@example.org'']) = Inr [PStr ''chinmay@example.org'']
      \<and> attendee_emails calendar_down [PStr ''chinmay@example.org''] [] = Inr [PStr ''chinmay@example.org'']
      \<and> events_insert calendar_down
            [(''summary'', PStr ''Sync''),
             (''description'', dict_get_default ?booking ''description'' (PStr '''')),
             (''start'', PDict [(''dateTime'', PStr ''2024-05-06T09:00:00Z''), (''timeZone'', PStr ''UTC'')]),
             (''end'', PDict [(''dateTime'', PStr ''2024-05-06T09:30:00Z''), (''timeZone'', PStr ''UTC'')]),
             (''attendees'', PList (map (\<lambda>email. PDict [(''email'', email)]) [PStr ''chinmay@example.org''])),
             (''reminders'', PDict [(''useDefault'', PBool True)])]
          = Inl (ServiceError ''HttpError 500'')"
    by (simp add: and_then_def calendar_down_def)
  have r10: "execute calendar_down ''calendar'' ''book_meeting'' ?booking =
       Inr (failure ''Error booking meeting: HttpError 500'')"
    using c10 [THEN mp, OF h10] by simp
  let ?sibling = "[(''user_id'', PStr ''primary''), (''other_user_id'', PStr ''PLACEHOLDER''),
          (''date'', PStr ''PLACEHOLDER'')]"
  have s11: "base_date_of strict_dates (PStr ''PLACEHOLDER'') =
       Inl (ValueError (''Invalid isoformat string: '' @ squote ''PLACEHOLDER''))"
    by (simp add: base_date_of_def strict_dates_def)
  have h11: "map_of ?sibling ''user_id'' = Some (PStr ''primary'')
      \<and> map_of ?sibling ''other_user_id'' = Some (PStr ''PLACEHOLDER'')
      \<and> base_date_of strict_dates (dict_get ?sibling ''date'') =
          Inl (ValueError (''Invalid isoformat string: '' @ squote ''PLACEHOLDER''))"
    using s11 by (simp add: dict_get_def)
  have r11: "execute strict_dates ''calendar'' ''get_free_slots'' ?sibling =
       Inr (failure (''Error getting free slots: Invalid isoformat string: '' @ squote ''PLACEHOLDER''))"
    using c11 [THEN mp, OF h11] by simp
  have s12: "base_date_of directory_down (dict_get (params slots_step) ''date'') = Inr 19849"
    by (simp add: base_date_of_def slots_step_def dict_get_def directory_down_def)
  have h12: "map_of (params slots_step) ''user_id'' = Some (PStr ''primary'')
      \<and> map_of (params slots_step) ''other_user_id'' = Some (PStr ''PLACEHOLDER'')
      \<and> base_date_of directory_down (dict_get (params slots_step) ''date'') = Inr 19849
      \<and> people_get directory_down (PStr ''PLACEHOLDER'') = Inl (ServiceError ''HttpError 503'')"
    using s12 by (simp add: slots_step_def directory_down_def)
  have r12: "execute directory_down ''calendar'' ''get_free_slots'' (params slots_step) =
       Inr (failure ''Could not find contact email'')"
    by (rule c12 [THEN mp, OF h12])
  have s13: "contains_at (PStr ''c42'') = Inr False"
    by simp
  have h13: "map_of three_attendees ''title'' = Some (PStr ''Sync'')
      \<and> map_of three_attendees ''attendees'' =
          Some (PList ([PStr ''ana@example.org''] @ PStr ''c42'' # [PStr ''bo@example.org'']))
      \<and> map_of three_attendees ''start_time'' = Some (PStr ''2024-05-06T09:00:00Z'')
      \<and> map_of three_attendees ''end_time'' = Some (PStr ''2024-05-06T09:30:00Z'')
      \<and> contains_at (PStr ''c42'') = Inr False
      \<and> people_get directory_down (PStr ''c42'') = Inl (ServiceError ''HttpError 503'')"
    using s7 by (simp add: three_attendees_def)
  have r13: "execute directory_down ''calendar'' ''book_meeting'' three_attendees =
       execute directory_down ''calendar'' ''book_meeting''
         (AList.update ''attendees'' (PList ([PStr ''ana@example.org''] @ [PStr ''bo@example.org'']))
            three_attendees)"
    by (rule c13 [THEN mp, OF h13])
  show ?thesis
    by (intro conjI r1 r2 r3 r4 h5 r5 s6 r6 s7 r7 s8 r8 s9 r9 r10 s11 r11 s12 r12 s13 r13)
qed

text \<open>
  The claim as the specification states it fails: with the directory down, the
  person lookup for the attendee \<open>c42\<close> raises during \<open>book_meeting\<close>, and the step
  result has \<open>success\<close> true and no error.
\<close>

theorem failed_lookup_keeps_booking_successful_counterexample:
  "people_get directory_down (PStr ''c42'') = Inl (ServiceError ''HttpError 503'')
   \<and> execute directory_down ''calendar'' ''book_meeting'' booking_params =
       Inr [(''success'', PBool True), (''meeting_id'', PStr ''evt1''), (''title'', PStr ''Sync''),
            (''start_time'', PStr ''2024-05-06T09:00:00Z''),
            (''end_time'', PStr ''2024-05-06T09:30:00Z''),
            (''attendees'', PList []), (''link'', PStr ''https://calendar.example/evt1'')]"
  by (simp add: execute_book_meeting param_def booking_params_def
     book_meeting_def book_meeting_body_def catching_def get_contact_details_def
     get_contact_details_body_def directory_down_def dict_get_default_def dict_get_def
     failure_def Let_def and_then_def)

end
